theory Spec2Isabelle
  imports Complex_Main "HOL-Library.Multiset"
begin

section \<open>Text primitives of the Python runtime\<close>

text \<open>
  Python strings are modelled as \<open>string\<close>: lists of 8-bit code points (Latin-1).
  Floats are modelled as exact rationals; rounding, infinities and NaN are outside the
  model. \<open>x in s\<close> on strings is \<open>contains x s\<close>, \<open>s.lower()\<close> is \<open>lower s\<close>.
\<close>

fun starts_with :: "string \<Rightarrow> string \<Rightarrow> bool" where
  "starts_with [] s = True"
| "starts_with (p # ps) [] = False"
| "starts_with (p # ps) (c # cs) = (p = c \<and> starts_with ps cs)"

fun contains :: "string \<Rightarrow> string \<Rightarrow> bool" where
  "contains sub [] = (sub = [])"
| "contains sub (c # cs) = (starts_with sub (c # cs) \<or> contains sub cs)"

definition upper_letters :: string where
  "upper_letters = ''ABCDEFGHIJKLMNOPQRSTUVWXYZ'' @
     [CHR 0xC0, CHR 0xC1, CHR 0xC2, CHR 0xC3, CHR 0xC4, CHR 0xC5, CHR 0xC6, CHR 0xC7,
      CHR 0xC8, CHR 0xC9, CHR 0xCA, CHR 0xCB, CHR 0xCC, CHR 0xCD, CHR 0xCE, CHR 0xCF,
      CHR 0xD0, CHR 0xD1, CHR 0xD2, CHR 0xD3, CHR 0xD4, CHR 0xD5, CHR 0xD6,
      CHR 0xD8, CHR 0xD9, CHR 0xDA, CHR 0xDB, CHR 0xDC, CHR 0xDD, CHR 0xDE]"

definition lower_letters :: string where
  "lower_letters = ''abcdefghijklmnopqrstuvwxyz'' @
     [CHR 0xE0, CHR 0xE1, CHR 0xE2, CHR 0xE3, CHR 0xE4, CHR 0xE5, CHR 0xE6, CHR 0xE7,
      CHR 0xE8, CHR 0xE9, CHR 0xEA, CHR 0xEB, CHR 0xEC, CHR 0xED, CHR 0xEE, CHR 0xEF,
      CHR 0xF0, CHR 0xF1, CHR 0xF2, CHR 0xF3, CHR 0xF4, CHR 0xF5, CHR 0xF6,
      CHR 0xF8, CHR 0xF9, CHR 0xFA, CHR 0xFB, CHR 0xFC, CHR 0xFD, CHR 0xFE]"

definition lower_char :: "char \<Rightarrow> char" where
  "lower_char c = (case map_of (zip upper_letters lower_letters) c of
                     Some d \<Rightarrow> d | None \<Rightarrow> c)"

definition upper_char :: "char \<Rightarrow> char" where
  "upper_char c = (case map_of (zip lower_letters upper_letters) c of
                     Some d \<Rightarrow> d | None \<Rightarrow> c)"

definition lower :: "string \<Rightarrow> string" where
  "lower s = map lower_char s"

definition is_cased :: "char \<Rightarrow> bool" where
  "is_cased c = (c \<in> set upper_letters \<or> c \<in> set lower_letters)"

text \<open>
  \<open>str.title()\<close>: a cased character is upper-cased when the character before it is not
  cased, and lower-cased otherwise. The flag is "the previous character is cased".
  The source applies it to the gazetteer's lower-case ASCII names only.
\<close>

fun title_from :: "bool \<Rightarrow> string \<Rightarrow> string" where
  "title_from prev [] = []"
| "title_from prev (c # cs) =
     (if is_cased c
      then (if prev then lower_char c else upper_char c) # title_from True cs
      else c # title_from False cs)"

definition title :: "string \<Rightarrow> string" where
  "title s = title_from False s"

definition is_digit :: "char \<Rightarrow> bool" where
  "is_digit c = (c \<in> set ''0123456789'')"

text \<open>The 8-bit code points for which \<open>str.isspace()\<close> holds, which \<open>\s\<close> matches.\<close>

definition is_space :: "char \<Rightarrow> bool" where
  "is_space c = (c \<in> set [CHR 0x09, CHR 0x0A, CHR 0x0B, CHR 0x0C, CHR 0x0D,
                           CHR 0x1C, CHR 0x1D, CHR 0x1E, CHR 0x1F, CHR 0x20,
                           CHR 0x85, CHR 0xA0])"

definition digit_val :: "char \<Rightarrow> nat" where
  "digit_val c = (case map_of (zip ''0123456789'' [0, 1, 2, 3, 4, 5, 6, 7, 8, 9]) c of
                    Some d \<Rightarrow> d | None \<Rightarrow> 0)"

text \<open>\<open>int(s)\<close> on a string of decimal digits.\<close>

definition digits_to_nat :: "string \<Rightarrow> nat" where
  "digits_to_nat s = foldl (\<lambda>acc c. 10 * acc + digit_val c) 0 s"

text \<open>\<open>str(n)\<close> on a natural number.\<close>

definition digit_char :: "nat \<Rightarrow> char" where
  "digit_char d = ''0123456789'' ! (d mod 10)"

fun str_nat :: "nat \<Rightarrow> string" where
  "str_nat n = (if n < 10 then [digit_char n] else str_nat (n div 10) @ [digit_char n])"

declare str_nat.simps [simp del]

section \<open>The regular expressions of the fallback paths\<close>

text \<open>
  The patterns of \<open>chatgpt_service.py\<close> are sequences of literals, \<open>\s+\<close>, \<open>\s*\<close> and
  the capturing group \<open>(\d+)\<close>. \<open>Euro\<close> is the literal U+20AC of two patterns; it lies
  outside the 8-bit alphabet of the model and matches no text of the model.
\<close>

datatype re_atom = Lit string | Space0 | Space1 | Digits1 | Euro

fun first_some :: "(nat \<Rightarrow> 'a option) \<Rightarrow> nat list \<Rightarrow> 'a option" where
  "first_some f [] = None"
| "first_some f (k # ks) = (case f k of Some r \<Rightarrow> Some r | None \<Rightarrow> first_some f ks)"

text \<open>
  \<open>re_match p s\<close>: the pattern matched at the start of \<open>s\<close>, greedy with backtracking
  (longest repetition first); the result is the tuple \<open>match.groups()\<close>.
\<close>

fun re_match :: "re_atom list \<Rightarrow> string \<Rightarrow> string list option" where
  "re_match [] s = Some []"
| "re_match (Lit l # as) s =
     (if starts_with l s then re_match as (drop (length l) s) else None)"
| "re_match (Space0 # as) s =
     first_some (\<lambda>k. re_match as (drop k s))
       (rev [0 ..< Suc (length (takeWhile is_space s))])"
| "re_match (Space1 # as) s =
     first_some (\<lambda>k. re_match as (drop k s))
       (rev [1 ..< Suc (length (takeWhile is_space s))])"
| "re_match (Digits1 # as) s =
     first_some (\<lambda>k. map_option ((#) (take k s)) (re_match as (drop k s)))
       (rev [1 ..< Suc (length (takeWhile is_digit s))])"
| "re_match (Euro # as) s = None"

text \<open>\<open>re.search\<close>: the match at the leftmost position that has one.\<close>

fun re_search :: "re_atom list \<Rightarrow> string \<Rightarrow> string list option" where
  "re_search p [] = re_match p []"
| "re_search p (c # cs) =
     (case re_match p (c # cs) of Some g \<Rightarrow> Some g | None \<Rightarrow> re_search p cs)"

section \<open>Search parameters\<close>

text \<open>
  \<open>ChatGPTParameterExtractionResponse\<close> and \<open>SearchParameters\<close> (schemas/recommendation.py)
  have the same nine optional fields; one record models both.
\<close>

record search_parameters =
  location :: "string option"
  check_in :: "string option"
  check_out :: "string option"
  budget_min :: "rat option"
  budget_max :: "rat option"
  adults :: "int option"
  children :: "int option"
  rooms :: "int option"
  preferences :: "string list option"

section \<open>ChatGPTService: rule-based parameter extraction\<close>

definition locations :: "string list" where
  "locations = [''italy'', ''france'', ''spain'', ''paris'', ''rome'', ''london'', ''berlin'',
     ''amsterdam'', ''vienna'', ''prague'', ''barcelona'', ''madrid'', ''milan'', ''venice'',
     ''florence'', ''lake como'', ''tuscany'', ''santorini'', ''mykonos'', ''bali'',
     ''thailand'']"

definition extract_budget_patterns :: "re_atom list list" where
  "extract_budget_patterns =
    [[Lit ''under'', Space1, Digits1],
     [Lit ''below'', Space1, Digits1],
     [Lit ''less'', Space1, Lit ''than'', Space1, Digits1],
     [Lit ''up'', Space1, Lit ''to'', Space1, Digits1],
     [Lit ''max'', Space1, Digits1],
     [Lit ''maximum'', Space1, Digits1],
     [Digits1, Space0, Euro],
     [Digits1, Space0, Lit ''eur''],
     [Digits1, Space0, Lit ''euro'']]"

text \<open>
  The loop \<open>for pattern in budget_patterns: match = re.search(...); if match: ...; break\<close>
  of \<open>_fallback_extract_parameters\<close>: every pattern there has a group.
\<close>

fun extract_budget :: "re_atom list list \<Rightarrow> string \<Rightarrow> rat option" where
  "extract_budget [] s = None"
| "extract_budget (p # ps) s =
     (case re_search p s of
        Some g \<Rightarrow> Some (of_nat (digits_to_nat (hd g)))
      | None \<Rightarrow> extract_budget ps s)"

definition pref_keywords :: "(string \<times> string list) list" where
  "pref_keywords =
    [(''romantic'', [''romantic'', ''romance'', ''couple'', ''honeymoon'']),
     (''family'', [''family'', ''family-friendly'', ''kids'', ''children'']),
     (''luxury'', [''luxury'', ''luxurious'', ''5-star'', ''five star'']),
     (''beach'', [''beach'', ''seaside'', ''coastal'', ''ocean'']),
     (''mountain'', [''mountain'', ''alpine'', ''ski'']),
     (''city'', [''city'', ''urban'', ''downtown''])]"

definition detect_tags :: "(string \<times> string list) list \<Rightarrow> string \<Rightarrow> string list" where
  "detect_tags table s =
     map fst (filter (\<lambda>(pref, keywords). list_ex (\<lambda>kw. contains kw s) keywords) table)"

definition fallback_extract_parameters :: "string \<Rightarrow> search_parameters" where
  "fallback_extract_parameters user_demand =
    (let user_lower = lower user_demand;
         loc = map_option title (find (\<lambda>l. contains l user_lower) locations);
         bmax = extract_budget extract_budget_patterns user_lower;
         bmin = None;
         prefs = detect_tags pref_keywords user_lower;
         n_adults = (case re_search [Digits1, Space1, Lit ''adult''] user_lower of
                       Some g \<Rightarrow> int (digits_to_nat (hd g))
                     | None \<Rightarrow> 1)
     in \<lparr> location = loc, check_in = None, check_out = None,
          budget_min = bmin, budget_max = bmax,
          adults = Some n_adults, children = Some 0, rooms = Some 1,
          preferences = (if prefs \<noteq> [] then Some prefs else None) \<rparr>)"

section \<open>Hotel payloads\<close>

text \<open>
  A hotel is a \<open>Dict[str, Any]\<close> in the source. The model keeps the sixteen keys the
  core reads, each with the type the \<open>HotelInfo\<close> schema gives it; \<open>None\<close> is "the key
  is absent", so \<open>d.get(k, default)\<close> is \<open>get_or default (k d)\<close>.
\<close>

record hotel =
  hotel_id :: "string option"
  name :: "string option"
  address :: "string option"
  city :: "string option"
  country :: "string option"
  latitude :: "rat option"
  longitude :: "rat option"
  price :: "rat option"
  currency :: "string option"
  rating :: "rat option"
  review_score :: "rat option"
  review_count :: "int option"
  amenities :: "string list option"
  description :: "string option"
  images :: "string list option"
  url :: "string option"

definition get_or :: "'a \<Rightarrow> 'a option \<Rightarrow> 'a" where
  "get_or d v = (case v of None \<Rightarrow> d | Some x \<Rightarrow> x)"

text \<open>Python truthiness of an optional number and of an optional string.\<close>

definition truthy_num :: "rat option \<Rightarrow> bool" where
  "truthy_num v = (case v of None \<Rightarrow> False | Some x \<Rightarrow> x \<noteq> 0)"

definition truthy_str :: "string option \<Rightarrow> bool" where
  "truthy_str v = (case v of None \<Rightarrow> False | Some s \<Rightarrow> s \<noteq> [])"

text \<open>\<open>str(hotel.get("hotel_id", ""))\<close>\<close>

definition hotel_id_str :: "hotel \<Rightarrow> string" where
  "hotel_id_str h = get_or [] (hotel_id h)"

text \<open>\<open>sep.join(xs)\<close>\<close>

fun join :: "string \<Rightarrow> string list \<Rightarrow> string" where
  "join sep [] = []"
| "join sep [x] = x"
| "join sep (x # y # ys) = x @ sep @ join sep (y # ys)"

text \<open>
  \<open>xs.sort(key=f, reverse=True)\<close>: CPython reverses the list, sorts it stably in
  ascending order and reverses it again, so equal keys keep their input order.
\<close>

definition sort_reverse :: "('a \<Rightarrow> 'k::linorder) \<Rightarrow> 'a list \<Rightarrow> 'a list" where
  "sort_reverse f xs = rev (sort_key f (rev xs))"

section \<open>ChatGPTService: rule-based ranking\<close>

definition filter_budget_patterns :: "re_atom list list" where
  "filter_budget_patterns =
    [[Lit ''under'', Space1, Digits1],
     [Lit ''below'', Space1, Digits1],
     [Lit ''less'', Space1, Lit ''than'', Space1, Digits1],
     [Lit ''up'', Space1, Lit ''to'', Space1, Digits1],
     [Digits1, Space0, Euro],
     [Digits1, Space0, Lit ''eur''],
     [Lit ''budget''],
     [Lit ''cheap''],
     [Lit ''affordable'']]"

text \<open>
  The budget loop of \<open>_fallback_filter_hotels\<close>: a match with a group gives its number,
  a match without one ("budget", "cheap", "affordable") gives 100.0.
\<close>

fun detect_budget :: "re_atom list list \<Rightarrow> string \<Rightarrow> rat option" where
  "detect_budget [] s = None"
| "detect_budget (p # ps) s =
     (case re_search p s of
        Some g \<Rightarrow> (if g \<noteq> [] then Some (of_nat (digits_to_nat (hd g))) else Some 100)
      | None \<Rightarrow> detect_budget ps s)"

definition preference_keywords :: "(string \<times> string list) list" where
  "preference_keywords =
    [(''luxury'', [''luxury'', ''premium'', ''5-star'', ''five star'']),
     (''budget'', [''budget'', ''cheap'', ''affordable'', ''economy'']),
     (''romantic'', [''romantic'', ''honeymoon'', ''couple'']),
     (''family'', [''family'', ''kids'', ''children'', ''family-friendly'']),
     (''business'', [''business'', ''corporate'', ''conference'']),
     (''beach'', [''beach'', ''seaside'', ''ocean'', ''coast'']),
     (''pool'', [''pool'', ''swimming'']),
     (''spa'', [''spa'', ''wellness'', ''massage''])]"

text \<open>\<open>hotel.get("rating") or hotel.get("review_score", 0)\<close>\<close>

definition rating_or_review :: "hotel \<Rightarrow> rat" where
  "rating_or_review h =
     (if truthy_num (rating h) then get_or 0 (rating h) else get_or 0 (review_score h))"

text \<open>The body of the scoring loop of \<open>_fallback_filter_hotels\<close> for one hotel.\<close>

definition hotel_score :: "rat option \<Rightarrow> string list \<Rightarrow> hotel \<Rightarrow> rat" where
  "hotel_score bmax detected h =
    (let p = price h;
         nm = lower (get_or [] (name h));
         amenities_str = join '' '' (map lower (get_or [] (amenities h)));
         descr = lower (get_or [] (description h));
         r = rating_or_review h;
         s0 = (0::rat);
         s1 = (if truthy_num bmax \<and> truthy_num p
               then (if get_or 0 p \<le> get_or 0 bmax then s0 + 10 else s0 - 5) else s0);
         s2 = (if ''luxury'' \<in> set detected
               then (let a = (if r \<noteq> 0 \<and> r \<ge> 9 / 2 then s1 + 5 else s1)
                     in if contains ''luxury'' nm \<or> contains ''resort'' nm \<or> contains ''grand'' nm
                        then a + 3 else a)
               else s1);
         s3 = (if ''budget'' \<in> set detected
               then (let a = (if truthy_num p \<and> get_or 0 p \<le> 100 then s2 + 5 else s2)
                     in if contains ''budget'' nm \<or> contains ''inn'' nm \<or> contains ''hostel'' nm
                        then a + 3 else a)
               else s2);
         s4 = (if ''romantic'' \<in> set detected \<and>
                  list_ex (\<lambda>kw. contains kw amenities_str \<or> contains kw descr)
                    [''spa'', ''romantic'', ''boutique'']
               then s3 + 5 else s3);
         s5 = (if ''family'' \<in> set detected \<and>
                  list_ex (\<lambda>kw. contains kw amenities_str \<or> contains kw descr)
                    [''pool'', ''kids'', ''family'', ''playground'']
               then s4 + 5 else s4);
         s6 = (if ''beach'' \<in> set detected \<and>
                  list_ex (\<lambda>kw. contains kw amenities_str \<or> contains kw descr \<or> contains kw nm)
                    [''beach'', ''ocean'', ''seaside'', ''coast'']
               then s5 + 5 else s5);
         s7 = (if ''pool'' \<in> set detected \<and> contains ''pool'' amenities_str
               then s6 + 5 else s6);
         s8 = (if ''spa'' \<in> set detected \<and> contains ''spa'' amenities_str
               then s7 + 5 else s7);
         s9 = (if r \<noteq> 0 then s8 + r * (3 / 2) else s8)
     in s9 + 1)"

text \<open>The list \<open>scored_hotels\<close> the loop builds: hotels without an identifier are skipped.\<close>

definition scored_hotels :: "string \<Rightarrow> hotel list \<Rightarrow> (rat \<times> string) list" where
  "scored_hotels user_demand hotels =
    (let user_lower = lower user_demand;
         bmax = detect_budget filter_budget_patterns user_lower;
         detected = detect_tags preference_keywords user_lower
     in map (\<lambda>h. (hotel_score bmax detected h, hotel_id_str h))
            (filter (\<lambda>h. hotel_id_str h \<noteq> []) hotels))"

definition fallback_filter_hotels :: "string \<Rightarrow> hotel list \<Rightarrow> string list" where
  "fallback_filter_hotels user_demand hotels =
     map snd (sort_reverse fst (scored_hotels user_demand hotels))"

section \<open>BookingService: the synthetic provider\<close>

text \<open>
  Library functions the source calls and the repository does not define are parameters of
  the model: the builtin \<open>hash\<close> on strings, \<open>hashlib.md5(..).hexdigest()\<close>, \<open>str\<close> on a
  float and \<open>repr\<close> on a list of strings (the last two as an f-string formats them).
\<close>

record py_runtime =
  py_hash :: "string \<Rightarrow> int"
  md5_hexdigest :: "string \<Rightarrow> string"
  str_float :: "rat \<Rightarrow> string"
  repr_list :: "string list \<Rightarrow> string"

definition location_map :: "(string \<times> rat \<times> rat) list" where
  "location_map =
    [(''paris'', 48.8566, 2.3522),
     (''rome'', 41.9028, 12.4964),
     (''london'', 51.5074, - 0.1278),
     (''barcelona'', 41.3851, 2.1734),
     (''amsterdam'', 52.3676, 4.9041),
     (''berlin'', 52.5200, 13.4050),
     (''vienna'', 48.2082, 16.3738),
     (''prague'', 50.0755, 14.4378),
     (''madrid'', 40.4168, - 3.7038),
     (''milan'', 45.4642, 9.1900),
     (''venice'', 45.4408, 12.3155),
     (''florence'', 43.7696, 11.2558),
     (''italy'', 41.8719, 12.5674),
     (''france'', 46.2276, 2.2137),
     (''spain'', 40.4637, - 3.7492)]"

text \<open>\<open>_get_location_coordinates\<close>: the pair is \<open>(lat, lng)\<close>.\<close>

definition get_location_coordinates :: "string \<Rightarrow> rat \<times> rat" where
  "get_location_coordinates loc =
     (case find (\<lambda>(key, coords). contains key loc) location_map of
        Some (key, coords) \<Rightarrow> coords
      | None \<Rightarrow> (48.8566, 2.3522))"

definition get_country_from_location :: "string \<Rightarrow> string" where
  "get_country_from_location loc =
    (let location_lower = lower loc;
         any_in = (\<lambda>cs. list_ex (\<lambda>c. contains c location_lower) cs)
     in if any_in [''paris'', ''lyon'', ''nice'', ''marseille'', ''france''] then ''France''
        else if any_in [''rome'', ''milan'', ''venice'', ''florence'', ''italy'', ''naples'']
          then ''Italy''
        else if any_in [''london'', ''manchester'', ''edinburgh'', ''uk'', ''england'']
          then ''United Kingdom''
        else if any_in [''barcelona'', ''madrid'', ''seville'', ''spain''] then ''Spain''
        else if any_in [''berlin'', ''munich'', ''frankfurt'', ''germany''] then ''Germany''
        else if any_in [''amsterdam'', ''netherlands'', ''holland''] then ''Netherlands''
        else if any_in [''vienna'', ''austria''] then ''Austria''
        else if any_in [''prague'', ''czech''] then ''Czech Republic''
        else ''France'')"

text \<open>
  \<open>get_coord_offset\<close>, the closure of \<open>_generate_mock_hotel_database\<close>; its free variable
  \<open>location_hash = hash(location) % 10000\<close> is the first argument. In
  \<open>generate_mock_hotel_database\<close> the source's parameter \<open>location\<close> is \<open>loc\<close>.
\<close>

definition get_coord_offset :: "int \<Rightarrow> int \<Rightarrow> string \<Rightarrow> rat" where
  "get_coord_offset location_hash index coord_type =
    (let multiplier = (if coord_type = ''lat'' then 100 else 200)
     in of_int ((location_hash + index * multiplier) mod 200 - 100) / 10000)"

definition generate_mock_hotel_database ::
    "py_runtime \<Rightarrow> string \<Rightarrow> rat \<times> rat \<Rightarrow> string \<Rightarrow> hotel list" where
  "generate_mock_hotel_database rt loc coords query_hash =
    (let base_lat = fst coords;
         base_lng = snd coords;
         location_hash = py_hash rt loc mod 10000
     in
    [
     \<lparr>
        hotel_id = Some (query_hash @ ''_luxury_1''),
        name = Some (''Grand Palace Hotel '' @ loc),
        address = Some (''1 Champs-'' @ [CHR 0xC9] @ ''lys'' @ [CHR 0xE9] @ ''es, '' @ loc),
        city = Some loc,
        country = Some (get_country_from_location loc),
        latitude = Some (base_lat + get_coord_offset location_hash 0 ''lat''),
        longitude = Some (base_lng + get_coord_offset location_hash 0 ''lng''),
        price = Some 350,
        currency = Some (''EUR''),
        rating = Some 4.9,
        review_score = Some 9.5,
        review_count = Some 2340,
        amenities = Some [''WiFi'',
           ''Pool'',
           ''Spa'',
           ''Fitness Center'',
           ''Restaurant'',
           ''Bar'',
           ''Room Service'',
           ''Concierge'',
           ''Valet Parking'',
           ''Business Center''],
        description = Some (''Luxurious 5-star hotel in the heart of '' @ loc @
          ''. Features elegant rooms, world-class spa, fine dining, and exceptional service. Perfect for business travelers and romantic getaways.''),
        images = Some [''https://images.unsplash.com/photo-1566073771259-6a8506099945?w=800&h=600&fit=crop'',
           ''https://images.unsplash.com/photo-1551882547-ff40c63fe5fa?w=800&h=600&fit=crop'',
           ''https://images.unsplash.com/photo-1571896349842-33c89424de2d?w=800&h=600&fit=crop''],
        url = Some (''https://booking.com/hotel/'' @ query_hash @ ''_luxury_1'') \<rparr>,
     \<lparr>
        hotel_id = Some (query_hash @ ''_resort_1''),
        name = Some (''Seaside Luxury Resort '' @ loc),
        address = Some (''Beach Boulevard, '' @ loc),
        city = Some loc,
        country = Some (get_country_from_location loc),
        latitude = Some (base_lat + get_coord_offset location_hash 1 ''lat''),
        longitude = Some (base_lng + get_coord_offset location_hash 1 ''lng''),
        price = Some 280,
        currency = Some (''EUR''),
        rating = Some 4.7,
        review_score = Some 9.1,
        review_count = Some 1890,
        amenities = Some [''WiFi'',
           ''Pool'',
           ''Spa'',
           ''Beach Access'',
           ''Restaurant'',
           ''Bar'',
           ''Water Sports'',
           ''Kids Club'',
           ''Beach Bar'',
           ''Tennis Court''],
        description = Some (''Stunning beachfront resort in '' @ loc @
          '' with direct beach access. Features infinity pool, spa, multiple restaurants, and water sports. Ideal for families and couples seeking relaxation.''),
        images = Some [''https://images.unsplash.com/photo-1571003123894-1f0594d2b5d9?w=800&h=600&fit=crop'',
           ''https://images.unsplash.com/photo-1582719478250-c89cae4dc85b?w=800&h=600&fit=crop'',
           ''https://images.unsplash.com/photo-1551882547-ff40c63fe5fa?w=800&h=600&fit=crop''],
        url = Some (''https://booking.com/hotel/'' @ query_hash @ ''_resort_1'') \<rparr>,
     \<lparr>
        hotel_id = Some (query_hash @ ''_boutique_1''),
        name = Some (''Romantic Boutique Hotel '' @ loc),
        address = Some (''Rue de la Romance, '' @ loc),
        city = Some loc,
        country = Some (get_country_from_location loc),
        latitude = Some (base_lat + get_coord_offset location_hash 2 ''lat''),
        longitude = Some (base_lng + get_coord_offset location_hash 2 ''lng''),
        price = Some 180,
        currency = Some (''EUR''),
        rating = Some 4.6,
        review_score = Some 8.9,
        review_count = Some 1450,
        amenities = Some [''WiFi'',
           ''Spa'',
           ''Restaurant'',
           ''Bar'',
           ''Romantic Packages'',
           ''Couples Massage'',
           ''Rooftop Terrace'',
           ''Wine Bar''],
        description = Some (''Charming boutique hotel in '' @ loc @
          '' perfect for romantic getaways. Intimate atmosphere, beautifully designed rooms, spa services, and fine dining. Highly rated by couples.''),
        images = Some [''https://images.unsplash.com/photo-1590490360182-c33d57733427?w=800&h=600&fit=crop'',
           ''https://images.unsplash.com/photo-1564501049412-61c2a3083791?w=800&h=600&fit=crop'',
           ''https://images.unsplash.com/photo-1571896349842-33c89424de2d?w=800&h=600&fit=crop''],
        url = Some (''https://booking.com/hotel/'' @ query_hash @ ''_boutique_1'') \<rparr>,
     \<lparr>
        hotel_id = Some (query_hash @ ''_business_1''),
        name = Some (''Business Center Hotel '' @ loc),
        address = Some (''Financial District, '' @ loc),
        city = Some loc,
        country = Some (get_country_from_location loc),
        latitude = Some (base_lat + get_coord_offset location_hash 3 ''lat''),
        longitude = Some (base_lng + get_coord_offset location_hash 3 ''lng''),
        price = Some 220,
        currency = Some (''EUR''),
        rating = Some 4.4,
        review_score = Some 8.6,
        review_count = Some 2100,
        amenities = Some [''WiFi'',
           ''Business Center'',
           ''Meeting Rooms'',
           ''Fitness Center'',
           ''Restaurant'',
           ''Bar'',
           ''Airport Shuttle'',
           ''Concierge'',
           ''Laundry Service''],
        description = Some (''Modern business hotel in '' @ loc @ [CHR 0x27] @
          ''s financial district. Well-equipped meeting facilities, high-speed WiFi, fitness center, and convenient location for corporate travelers.''),
        images = Some [''https://images.unsplash.com/photo-1566073771259-6a8506099945?w=800&h=600&fit=crop'',
           ''https://images.unsplash.com/photo-1590490360182-c33d57733427?w=800&h=600&fit=crop''],
        url = Some (''https://booking.com/hotel/'' @ query_hash @ ''_business_1'') \<rparr>,
     \<lparr>
        hotel_id = Some (query_hash @ ''_family_1''),
        name = Some (''Family Resort '' @ loc),
        address = Some (''Family Street, '' @ loc),
        city = Some loc,
        country = Some (get_country_from_location loc),
        latitude = Some (base_lat + get_coord_offset location_hash 4 ''lat''),
        longitude = Some (base_lng + get_coord_offset location_hash 4 ''lng''),
        price = Some 160,
        currency = Some (''EUR''),
        rating = Some 4.5,
        review_score = Some 8.7,
        review_count = Some 3200,
        amenities = Some [''WiFi'',
           ''Pool'',
           ''Kids Club'',
           ''Playground'',
           ''Family Rooms'',
           ''Restaurant'',
           ''Bar'',
           ''Entertainment'',
           ''Game Room'',
           ''Babysitting''],
        description = Some (''Family-friendly resort in '' @ loc @
          '' with extensive facilities for children. Large pool, kids club, playground, family rooms, and entertainment. Perfect for families with children.''),
        images = Some [''https://images.unsplash.com/photo-1571003123894-1f0594d2b5d9?w=800&h=600&fit=crop'',
           ''https://images.unsplash.com/photo-1564501049412-61c2a3083791?w=800&h=600&fit=crop''],
        url = Some (''https://booking.com/hotel/'' @ query_hash @ ''_family_1'') \<rparr>,
     \<lparr>
        hotel_id = Some (query_hash @ ''_mid_1''),
        name = Some (''Comfort Inn '' @ loc),
        address = Some (''Main Avenue, '' @ loc),
        city = Some loc,
        country = Some (get_country_from_location loc),
        latitude = Some (base_lat + get_coord_offset location_hash 3 ''lat''),
        longitude = Some (base_lng + get_coord_offset location_hash 3 ''lng''),
        price = Some 120,
        currency = Some (''EUR''),
        rating = Some 4.2,
        review_score = Some 8.3,
        review_count = Some 1850,
        amenities = Some [''WiFi'',
           ''Pool'',
           ''Restaurant'',
           ''Bar'',
           ''Parking'',
           ''Fitness Center''],
        description = Some (''Comfortable mid-range hotel in '' @ loc @
          '' with good value. Clean rooms, pool, restaurant, and convenient location. Great for travelers seeking comfort without luxury prices.''),
        images = Some [''https://images.unsplash.com/photo-1590490360182-c33d57733427?w=800&h=600&fit=crop'',
           ''https://images.unsplash.com/photo-1566073771259-6a8506099945?w=800&h=600&fit=crop''],
        url = Some (''https://booking.com/hotel/'' @ query_hash @ ''_mid_1'') \<rparr>,
     \<lparr>
        hotel_id = Some (query_hash @ ''_spa_1''),
        name = Some (''Wellness Spa Hotel '' @ loc),
        address = Some (''Relaxation Road, '' @ loc),
        city = Some loc,
        country = Some (get_country_from_location loc),
        latitude = Some (base_lat + get_coord_offset location_hash 2 ''lat''),
        longitude = Some (base_lng + get_coord_offset location_hash 2 ''lng''),
        price = Some 200,
        currency = Some (''EUR''),
        rating = Some 4.6,
        review_score = Some 8.8,
        review_count = Some 1650,
        amenities = Some [''WiFi'',
           ''Spa'',
           ''Wellness Center'',
           ''Massage'',
           ''Sauna'',
           ''Steam Room'',
           ''Yoga Classes'',
           ''Restaurant'',
           ''Bar'',
           ''Pool''],
        description = Some (''Dedicated wellness and spa hotel in '' @ loc @
          ''. Extensive spa facilities, massage services, sauna, steam room, yoga classes, and healthy dining options. Perfect for relaxation and rejuvenation.''),
        images = Some [''https://images.unsplash.com/photo-1571896349842-33c89424de2d?w=800&h=600&fit=crop'',
           ''https://images.unsplash.com/photo-1582719478250-c89cae4dc85b?w=800&h=600&fit=crop''],
        url = Some (''https://booking.com/hotel/'' @ query_hash @ ''_spa_1'') \<rparr>,
     \<lparr>
        hotel_id = Some (query_hash @ ''_budget_1''),
        name = Some (''Budget Inn '' @ loc),
        address = Some (''Economy Street, '' @ loc),
        city = Some loc,
        country = Some (get_country_from_location loc),
        latitude = Some (base_lat + get_coord_offset location_hash 7 ''lat''),
        longitude = Some (base_lng + get_coord_offset location_hash 7 ''lng''),
        price = Some 65,
        currency = Some (''EUR''),
        rating = Some 3.8,
        review_score = Some 7.6,
        review_count = Some 2800,
        amenities = Some [''WiFi'',
           ''Parking'',
           ''24-Hour Reception''],
        description = Some (''Affordable budget accommodation in '' @ loc @
          ''. Basic but clean rooms, free WiFi, parking available. Great value for money-conscious travelers.''),
        images = Some [''https://images.unsplash.com/photo-1590490360182-c33d57733427?w=800&h=600&fit=crop'',
           ''https://images.unsplash.com/photo-1564501049412-61c2a3083791?w=800&h=600&fit=crop''],
        url = Some (''https://booking.com/hotel/'' @ query_hash @ ''_budget_1'') \<rparr>,
     \<lparr>
        hotel_id = Some (query_hash @ ''_historic_1''),
        name = Some (''Historic Grand Hotel '' @ loc),
        address = Some (''Historic Square, '' @ loc),
        city = Some loc,
        country = Some (get_country_from_location loc),
        latitude = Some (base_lat + get_coord_offset location_hash 3 ''lat''),
        longitude = Some (base_lng + get_coord_offset location_hash 3 ''lng''),
        price = Some 240,
        currency = Some (''EUR''),
        rating = Some 4.7,
        review_score = Some 9,
        review_count = Some 1950,
        amenities = Some [''WiFi'',
           ''Historic Building'',
           ''Restaurant'',
           ''Bar'',
           ''Concierge'',
           ''Room Service'',
           ''Fitness Center''],
        description = Some (''Beautifully restored historic hotel in the center of '' @ loc @
          ''. Combines classic architecture with modern amenities. Elegant rooms, fine dining, and rich history.''),
        images = Some [''https://images.unsplash.com/photo-1566073771259-6a8506099945?w=800&h=600&fit=crop'',
           ''https://images.unsplash.com/photo-1551882547-ff40c63fe5fa?w=800&h=600&fit=crop''],
        url = Some (''https://booking.com/hotel/'' @ query_hash @ ''_historic_1'') \<rparr>,
     \<lparr>
        hotel_id = Some (query_hash @ ''_eco_1''),
        name = Some (''Eco-Friendly Hotel '' @ loc),
        address = Some (''Green Boulevard, '' @ loc),
        city = Some loc,
        country = Some (get_country_from_location loc),
        latitude = Some (base_lat + get_coord_offset location_hash 2 ''lat''),
        longitude = Some (base_lng + get_coord_offset location_hash 2 ''lng''),
        price = Some 140,
        currency = Some (''EUR''),
        rating = Some 4.4,
        review_score = Some 8.5,
        review_count = Some 1200,
        amenities = Some [''WiFi'',
           ''Eco-Friendly'',
           ''Organic Restaurant'',
           ''Bike Rental'',
           ''Solar Power'',
           ''Recycling'',
           ''Garden''],
        description = Some (''Environmentally conscious hotel in '' @ loc @
          ''. Sustainable practices, organic restaurant, bike rental, solar power. Perfect for eco-conscious travelers.''),
        images = Some [''https://images.unsplash.com/photo-1564501049412-61c2a3083791?w=800&h=600&fit=crop'',
           ''https://images.unsplash.com/photo-1590490360182-c33d57733427?w=800&h=600&fit=crop''],
        url = Some (''https://booking.com/hotel/'' @ query_hash @ ''_eco_1'') \<rparr>
    ])"

text \<open>The two budget comprehensions of \<open>_filter_mock_hotels\<close>.\<close>

definition budget_filter :: "search_parameters \<Rightarrow> hotel list \<Rightarrow> hotel list" where
  "budget_filter p hotels =
    (let f1 = (if truthy_num (budget_max p)
               then filter (\<lambda>h. get_or 0 (price h) \<le> get_or 0 (budget_max p)) hotels
               else hotels)
     in if truthy_num (budget_min p)
        then filter (\<lambda>h. get_or 0 (price h) \<ge> get_or 0 (budget_min p)) f1
        else f1)"

text \<open>The body of the preference loop of \<open>_filter_mock_hotels\<close> for one hotel.\<close>

definition preference_score :: "string list \<Rightarrow> hotel \<Rightarrow> int" where
  "preference_score pref_lower h =
    (let amenities_str = join '' '' (map lower (get_or [] (amenities h)));
         name_desc = lower (get_or [] (name h) @ '' '' @ get_or [] (description h));
         any_pref = (\<lambda>kws. list_ex (\<lambda>p. list_ex (\<lambda>kw. contains kw p) kws) pref_lower);
         s0 = (0::int);
         s1 = (if any_pref [''luxury'', ''premium'']
                  \<and> (get_or 0 (rating h) \<ge> 4.5 \<or> contains ''luxury'' name_desc)
               then s0 + 10 else s0);
         s2 = (if any_pref [''budget'', ''cheap'', ''affordable'']
                  \<and> get_or 0 (price h) \<le> 100
               then s1 + 10 else s1);
         s3 = (if any_pref [''romantic'', ''couple'']
                  \<and> (contains ''romantic'' name_desc \<or> contains ''boutique'' name_desc
                       \<or> contains ''spa'' amenities_str)
               then s2 + 10 else s2);
         s4 = (if any_pref [''family'', ''kids'']
                  \<and> (contains ''family'' name_desc \<or> contains ''kids'' amenities_str)
               then s3 + 10 else s3);
         s5 = (if any_pref [''business'', ''corporate'']
                  \<and> (contains ''business'' name_desc \<or> contains ''business'' amenities_str)
               then s4 + 10 else s4);
         s6 = (if any_pref [''beach'', ''seaside'']
                  \<and> (contains ''beach'' name_desc \<or> contains ''beach'' amenities_str)
               then s5 + 10 else s5);
         s7 = (if any_pref [''pool''] \<and> contains ''pool'' amenities_str
               then s6 + 10 else s6);
         s8 = (if any_pref [''spa'', ''wellness'']
                  \<and> (contains ''spa'' amenities_str \<or> contains ''wellness'' amenities_str)
               then s7 + 10 else s7)
     in s8)"

text \<open>
  The preference block: \<open>[h for _, h in scored if _ > 0] or [h for _, h in scored]\<close> after
  the stable descending sort.
\<close>

definition preference_bias :: "string list \<Rightarrow> hotel list \<Rightarrow> hotel list" where
  "preference_bias prefs filtered =
    (let pref_lower = map lower prefs;
         scored = map (\<lambda>h. (preference_score pref_lower h, h)) filtered;
         ranked = sort_reverse fst scored;
         positive = map snd (filter (\<lambda>(s, h). s > 0) ranked)
     in if positive \<noteq> [] then positive else map snd ranked)"

definition filter_mock_hotels :: "hotel list \<Rightarrow> search_parameters \<Rightarrow> hotel list" where
  "filter_mock_hotels hotels p =
    (let filtered = budget_filter p hotels;
         filtered2 = (if get_or [] (preferences p) \<noteq> []
                      then preference_bias (get_or [] (preferences p)) filtered
                      else filtered)
     in if length filtered2 > 12 then take 12 filtered2 else filtered2)"

text \<open>The text that \<open>_get_mock_hotels\<close> hashes, and the fingerprint \<open>query_hash\<close>.\<close>

definition fmt_float :: "py_runtime \<Rightarrow> rat option \<Rightarrow> string" where
  "fmt_float rt v = (case v of None \<Rightarrow> ''None'' | Some x \<Rightarrow> str_float rt x)"

definition fmt_list :: "py_runtime \<Rightarrow> string list option \<Rightarrow> string" where
  "fmt_list rt v = (case v of None \<Rightarrow> ''None'' | Some xs \<Rightarrow> repr_list rt xs)"

text \<open>\<open>parameters.location or "Paris"\<close>\<close>

definition location_or_default :: "search_parameters \<Rightarrow> string" where
  "location_or_default p = (if truthy_str (location p) then get_or [] (location p) else ''Paris'')"

definition query_text :: "py_runtime \<Rightarrow> search_parameters \<Rightarrow> string" where
  "query_text rt p =
     location_or_default p @ ''_'' @ fmt_float rt (budget_min p) @ ''_'' @
     fmt_float rt (budget_max p) @ ''_'' @ fmt_list rt (preferences p)"

definition query_hash :: "py_runtime \<Rightarrow> search_parameters \<Rightarrow> string" where
  "query_hash rt p = take 8 (md5_hexdigest rt (query_text rt p))"

definition get_mock_hotels :: "py_runtime \<Rightarrow> search_parameters \<Rightarrow> hotel list" where
  "get_mock_hotels rt p =
    (let loc = location_or_default p;
         location_lower = lower loc;
         location_coords = get_location_coordinates location_lower;
         all_hotels = generate_mock_hotel_database rt loc location_coords (query_hash rt p)
     in filter_mock_hotels all_hotels p)"

text \<open>
  \<open>search_hotels\<close>: without a key the synthetic provider answers; with one, the provider's
  answer \<open>data.get("result", [])\<close> is \<open>Some\<close> list, and any exception of the call is \<open>None\<close>,
  which falls back to the synthetic provider.
\<close>

definition search_hotels ::
    "py_runtime \<Rightarrow> string \<Rightarrow> (search_parameters \<Rightarrow> hotel list option) \<Rightarrow>
     search_parameters \<Rightarrow> hotel list" where
  "search_hotels rt api_key provider p =
    (if api_key = [] then get_mock_hotels rt p
     else (case provider p of
             Some hotels \<Rightarrow> hotels
           | None \<Rightarrow> get_mock_hotels rt p))"

section \<open>ChatGPTService: the inference-service strategies\<close>

text \<open>
  The exceptions the pipeline distinguishes; the text carried is \<open>str(e)\<close>.
  \<open>JSONDecodeError\<close> and pydantic's \<open>ValidationError\<close> are subclasses of \<open>ValueError\<close>.
\<close>

datatype exn =
    RateLimitError string
  | APIError string
  | AttributeError
  | JSONDecodeError
  | ValidationError
  | OtherError string

text \<open>The outcome of \<open>client.chat.completions.create\<close>: the content, or what it raised.\<close>

datatype api_result = Completion string | Raised exn

text \<open>The outcome of \<open>json.loads\<close> followed by the schema's constructor.\<close>

datatype 'a parsed = Parsed 'a | DecodeError | Invalid

text \<open>
  \<open>s.find(sub, start)\<close> (with \<open>start \<le> len(s)\<close>), \<open>s[i:j]\<close> for \<open>i \<ge> 0\<close> and any \<open>j\<close>,
  and \<open>s.strip()\<close>.
\<close>

fun find_at :: "string \<Rightarrow> string \<Rightarrow> nat \<Rightarrow> int" where
  "find_at sub [] i = (if sub = [] then int i else - 1)"
| "find_at sub (c # cs) i =
     (if starts_with sub (c # cs) then int i else find_at sub cs (Suc i))"

definition py_find :: "string \<Rightarrow> string \<Rightarrow> nat \<Rightarrow> int" where
  "py_find sub s start = find_at sub (drop start s) start"

definition py_slice :: "string \<Rightarrow> nat \<Rightarrow> int \<Rightarrow> string" where
  "py_slice s i j =
     (let stop = (if j < 0 then nat (int (length s) + j) else nat j)
      in drop i (take stop s))"

definition strip :: "string \<Rightarrow> string" where
  "strip s = rev (dropWhile is_space (rev (dropWhile is_space s)))"

text \<open>The body between a \<open>```json\<close> fence and the next \<open>```\<close>, stripped.\<close>

definition fenced_body :: "string \<Rightarrow> string" where
  "fenced_body content =
    (let json_start = nat (py_find ''```json'' content 0 + 7);
         json_end = py_find ''```'' content json_start
     in strip (py_slice content json_start json_end))"

text \<open>
  The test of both \<open>except (RateLimitError, APIError)\<close> handlers apart from the
  \<open>isinstance\<close> disjunct, on \<open>error_str = str(e)\<close>.
\<close>

definition quota_marker :: "string \<Rightarrow> bool" where
  "quota_marker error_str =
     (contains ''insufficient_quota'' (lower error_str) \<or> contains ''429'' error_str
      \<or> contains ''rate_limit'' (lower error_str))"

text \<open>
  What the services read from their surroundings: the two credentials of \<open>settings\<close>, the
  Python runtime, the inference service (its answer to the extraction prompt of a demand
  and to the ranking prompt of a demand and a candidate list), the JSON decoders, the
  inventory provider, and the store's failures (\<open>db_fail_after = Some k\<close>: the store raises
  on the write after \<open>k\<close> successful ones; \<open>db_read_ok i\<close>: \<open>get_hotel\<close> on \<open>i\<close> does not raise).
\<close>

record environment =
  runtime :: py_runtime
  openai_api_key :: string
  booking_api_key :: string
  chat_extract :: "string \<Rightarrow> api_result"
  chat_filter :: "string \<Rightarrow> hotel list \<Rightarrow> api_result"
  parse_params :: "string \<Rightarrow> search_parameters parsed"
  parse_ids :: "string \<Rightarrow> string list option"
  provider :: "search_parameters \<Rightarrow> hotel list option"
  db_fail_after :: "nat option"
  db_read_ok :: "string \<Rightarrow> bool"

text \<open>
  \<open>extract_search_parameters\<close>. Without a key \<open>self.client\<close> is \<open>None\<close>, the attribute
  access \<open>self.client.chat\<close> raises \<open>AttributeError\<close> inside the \<open>try\<close>, and the handler
  \<open>except Exception\<close> re-raises it.
\<close>

definition extract_search_parameters :: "environment \<Rightarrow> string \<Rightarrow> exn + search_parameters" where
  "extract_search_parameters env user_demand =
    (if openai_api_key env = [] then Inl AttributeError
     else
      (case chat_extract env user_demand of
         Completion content \<Rightarrow>
           (case parse_params env content of
              Parsed p \<Rightarrow> Inr p
            | Invalid \<Rightarrow> Inl ValidationError
            | DecodeError \<Rightarrow>
                (if contains ''```json'' content
                 then (case parse_params env (fenced_body content) of
                         Parsed p \<Rightarrow> Inr p
                       | Invalid \<Rightarrow> Inl ValidationError
                       | DecodeError \<Rightarrow> Inl JSONDecodeError)
                 else Inl JSONDecodeError))
       | Raised (RateLimitError m) \<Rightarrow> Inr (fallback_extract_parameters user_demand)
       | Raised (APIError m) \<Rightarrow>
           (if quota_marker m then Inr (fallback_extract_parameters user_demand)
            else Inl (APIError m))
       | Raised e \<Rightarrow> Inl e))"

text \<open>
  \<open>filter_hotels_by_demand\<close>. \<open>parse_ids\<close> is \<open>json.loads(content).get("matched_ids", [])\<close>,
  \<open>None\<close> when that raises; every exception of this method ends in the fallback.
\<close>

definition filter_hotels_by_demand :: "environment \<Rightarrow> string \<Rightarrow> hotel list \<Rightarrow> string list" where
  "filter_hotels_by_demand env user_demand hotels =
    (if hotels = [] then []
     else if openai_api_key env = [] then fallback_filter_hotels user_demand hotels
     else
      (case chat_filter env user_demand hotels of
         Completion content \<Rightarrow>
           (let body = (if contains ''```json'' content then fenced_body content else content)
            in case parse_ids env body of
                 Some matched_ids \<Rightarrow> matched_ids
               | None \<Rightarrow> fallback_filter_hotels user_demand hotels)
       | Raised e \<Rightarrow> fallback_filter_hotels user_demand hotels))"

section \<open>The hotel store (crud/hotel.py)\<close>

text \<open>The table \<open>hotels\<close>: \<open>booking_data\<close> by primary key \<open>hotel_id\<close>.\<close>

type_synonym store = "string \<rightharpoonup> hotel"

text \<open>
  \<open>bulk_create_or_update_hotels\<close>: the result is the store after the call, and whether the
  call returned (\<open>True\<close>) or raised (\<open>False\<close>); the first argument is how many writes
  succeed before the store raises (\<open>None\<close>: all).
\<close>

fun bulk_create_or_update_hotels :: "nat option \<Rightarrow> store \<Rightarrow> hotel list \<Rightarrow> store \<times> bool" where
  "bulk_create_or_update_hotels k db [] = (db, True)"
| "bulk_create_or_update_hotels k db (h # hs) =
     (if hotel_id_str h = [] then bulk_create_or_update_hotels k db hs
      else (case k of
              None \<Rightarrow> bulk_create_or_update_hotels None (db(hotel_id_str h \<mapsto> h)) hs
            | Some 0 \<Rightarrow> (db, False)
            | Some (Suc n) \<Rightarrow>
                bulk_create_or_update_hotels (Some n) (db(hotel_id_str h \<mapsto> h)) hs))"

section \<open>The orchestrator (api/v1/recommendations.py)\<close>

record hotel_info = hotel +
  raw_data :: "hotel option"

record recommendation_response =
  user_demand :: string
  extracted_parameters :: search_parameters
  matched_hotels :: "hotel_info list"
  total_results :: int
  message :: "string option"

text \<open>The payload with no key: the empty dict, which is falsy.\<close>

definition empty_hotel :: hotel where
  "empty_hotel = \<lparr> hotel_id = None, name = None, address = None, city = None, country = None,
     latitude = None, longitude = None, price = None, currency = None, rating = None,
     review_score = None, review_count = None, amenities = None, description = None,
     images = None, url = None \<rparr>"

text \<open>The constructor call \<open>HotelInfo(...)\<close> of step 4.\<close>

definition make_hotel_info :: "hotel \<Rightarrow> hotel_info" where
  "make_hotel_info hotel_data =
    \<lparr> hotel_id = Some (hotel_id_str hotel_data),
      name = name hotel_data,
      address = address hotel_data,
      city = city hotel_data,
      country = country hotel_data,
      latitude = latitude hotel_data,
      longitude = longitude hotel_data,
      price = price hotel_data,
      currency = Some (get_or ''EUR'' (currency hotel_data)),
      rating = rating hotel_data,
      review_score = review_score hotel_data,
      review_count = review_count hotel_data,
      amenities = Some (get_or [] (amenities hotel_data)),
      description = description hotel_data,
      images = Some (get_or [] (images hotel_data)),
      url = url hotel_data,
      raw_data = Some hotel_data \<rparr>"

text \<open>
  \<open>hotels_by_id = {str(h.get("hotel_id", "")): h for h in hotels if h.get("hotel_id")}\<close>:
  a later hotel with the same identifier replaces an earlier one.
\<close>

definition hotels_by_id :: "hotel list \<Rightarrow> (string \<rightharpoonup> hotel)" where
  "hotels_by_id hotels =
     foldl (\<lambda>m h. if truthy_str (hotel_id h) then m(hotel_id_str h \<mapsto> h) else m)
       Map.empty hotels"

text \<open>
  The body of the loop of step 4 up to \<open>if hotel_data:\<close>: the fresh entry, else the
  store's record when the read does not raise and the record and its payload are truthy.
\<close>

definition hotel_data_for ::
    "(string \<Rightarrow> bool) \<Rightarrow> store \<Rightarrow> (string \<rightharpoonup> hotel) \<Rightarrow> string \<Rightarrow> hotel option" where
  "hotel_data_for read_ok db by_id hid =
    (case by_id hid of
       Some h \<Rightarrow> Some h
     | None \<Rightarrow>
        (if read_ok hid
         then (case db hid of
                 Some booking_data \<Rightarrow>
                   (if booking_data \<noteq> empty_hotel then Some booking_data else None)
               | None \<Rightarrow> None)
         else None))"

fun hydrate_loop ::
    "(string \<Rightarrow> bool) \<Rightarrow> store \<Rightarrow> (string \<rightharpoonup> hotel) \<Rightarrow> string list \<Rightarrow>
     hotel_info list \<Rightarrow> hotel_info list" where
  "hydrate_loop read_ok db by_id [] matched = matched"
| "hydrate_loop read_ok db by_id (hid # ids) matched =
     (case hotel_data_for read_ok db by_id hid of
        Some hotel_data \<Rightarrow>
          (if hotel_data \<noteq> empty_hotel
           then hydrate_loop read_ok db by_id ids (matched @ [make_hotel_info hotel_data])
           else hydrate_loop read_ok db by_id ids matched)
      | None \<Rightarrow> hydrate_loop read_ok db by_id ids matched)"

definition hydrate ::
    "(string \<Rightarrow> bool) \<Rightarrow> store \<Rightarrow> hotel list \<Rightarrow> string list \<Rightarrow> hotel_info list" where
  "hydrate read_ok db hotels matched_hotel_ids =
     hydrate_loop read_ok db (hotels_by_id hotels) matched_hotel_ids []"

datatype stage = EXTRACT | SEARCH | PERSIST | RANK | HYDRATE

text \<open>Both handlers answer with status 500; the detail names the handler and \<open>str(e)\<close>.\<close>

datatype http_error = ServiceConfigurationError exn | ProcessingError exn

definition is_value_error :: "exn \<Rightarrow> bool" where
  "is_value_error e = (e = JSONDecodeError \<or> e = ValidationError)"

text \<open>\<open>x or d\<close> on an optional integer.\<close>

definition int_or :: "int option \<Rightarrow> int \<Rightarrow> int" where
  "int_or v d = (case v of None \<Rightarrow> d | Some x \<Rightarrow> if x = 0 then d else x)"

definition to_search_parameters :: "search_parameters \<Rightarrow> search_parameters" where
  "to_search_parameters extracted_params =
    \<lparr> location = location extracted_params,
      check_in = check_in extracted_params,
      check_out = check_out extracted_params,
      budget_min = budget_min extracted_params,
      budget_max = budget_max extracted_params,
      adults = Some (int_or (adults extracted_params) 1),
      children = Some (int_or (children extracted_params) 0),
      rooms = Some (int_or (rooms extracted_params) 1),
      preferences = Some (get_or [] (preferences extracted_params)) \<rparr>"

text \<open>
  \<open>recommend_hotels\<close>: the answer (the response, or the \<open>HTTPException\<close> raised), the store
  after the request, and the stages the request entered, in order.
\<close>

definition recommend_hotels ::
    "environment \<Rightarrow> store \<Rightarrow> string \<Rightarrow>
     (http_error + recommendation_response) \<times> store \<times> stage list" where
  "recommend_hotels env db demand =
    (case extract_search_parameters env demand of
       Inl e \<Rightarrow>
         (Inl (if is_value_error e then ServiceConfigurationError e else ProcessingError e),
          db, [EXTRACT])
     | Inr extracted_params \<Rightarrow>
        (let search_params = to_search_parameters extracted_params;
             hotels = search_hotels (runtime env) (booking_api_key env) (provider env)
                        search_params
         in if hotels = []
            then (Inr \<lparr> user_demand = demand,
                        extracted_parameters = search_params,
                        matched_hotels = [],
                        total_results = 0,
                        message = Some ''No hotels found matching your criteria.'' \<rparr>,
                  db, [EXTRACT, SEARCH])
            else
             (let db2 = fst (bulk_create_or_update_hotels (db_fail_after env) db hotels);
                  matched_hotel_ids = filter_hotels_by_demand env demand hotels;
                  matched = hydrate (db_read_ok env) db2 hotels matched_hotel_ids
              in (Inr \<lparr> user_demand = demand,
                         extracted_parameters = search_params,
                         matched_hotels = matched,
                         total_results = int (length matched),
                         message = Some (''Found '' @ str_nat (length matched) @
                                         '' hotels matching your preferences.'') \<rparr>,
                  db2, [EXTRACT, SEARCH, PERSIST, RANK, HYDRATE]))))"

section \<open>Concrete inputs\<close>

text \<open>
  Inputs for the closed instances below. The theorems hold for every runtime; the instances
  fix one.
\<close>

definition example_runtime :: py_runtime where
  "example_runtime = \<lparr> py_hash = (\<lambda>s. 4711), md5_hexdigest = (\<lambda>s. s),
     str_float = (\<lambda>r. ''1.0''), repr_list = (\<lambda>xs. join '', '' xs) \<rparr>"

definition example_parameters :: search_parameters where
  "example_parameters = \<lparr> location = Some ''Paris'', check_in = None, check_out = None,
     budget_min = None, budget_max = None, adults = Some 1, children = Some 0,
     rooms = Some 1, preferences = Some [] \<rparr>"

definition example_environment :: environment where
  "example_environment = \<lparr> runtime = example_runtime,
     openai_api_key = ''sk-test'', booking_api_key = [],
     chat_extract = (\<lambda>d. Raised (RateLimitError ''Error code: 429'')),
     chat_filter = (\<lambda>d hs. Raised (APIError ''Connection error.'')),
     parse_params = (\<lambda>s. DecodeError), parse_ids = (\<lambda>s. None),
     provider = (\<lambda>p. None),
     db_fail_after = None, db_read_ok = (\<lambda>i. True) \<rparr>"

definition example_hotel :: hotel where
  "example_hotel = \<lparr> hotel_id = Some ''h1'', name = Some ''Budget Inn Paris'',
     address = Some ''Economy Street, Paris'', city = Some ''Paris'', country = Some ''France'',
     latitude = Some 48.8566, longitude = Some 2.3522, price = Some 65,
     currency = Some ''EUR'', rating = Some 3.8, review_score = Some 7.6,
     review_count = Some 2800, amenities = Some [''WiFi'', ''Parking''],
     description = Some ''Affordable budget accommodation.'', images = Some [],
     url = Some ''https://booking.com/hotel/h1'' \<rparr>"

text \<open>A second payload, and an environment whose inventory provider answers.\<close>

definition example_hotel_2 :: hotel where
  "example_hotel_2 = \<lparr> hotel_id = Some ''h2'', name = Some ''Grand Palace Hotel Paris'',
     address = None, city = Some ''Paris'', country = Some ''France'',
     latitude = None, longitude = None, price = Some 350,
     currency = None, rating = Some 4.9, review_score = Some 9.5,
     review_count = Some 2340, amenities = Some [''WiFi'', ''Pool'', ''Spa''],
     description = Some ''Luxurious 5-star hotel.'', images = None,
     url = None \<rparr>"

definition live_environment :: "hotel list \<Rightarrow> environment" where
  "live_environment hotels =
     example_environment\<lparr> booking_api_key := ''bk-test'', provider := (\<lambda>p. Some hotels) \<rparr>"


section \<open>Evaluation rules\<close>

lemmas text_simps = lower_def lower_char_def upper_letters_def lower_letters_def
  is_space_def is_digit_def digits_to_nat_def digit_val_def

section \<open>Fallback budget patterns\<close>



lemma under_150: "fallback_extract_parameters ''hotels under 150'' =
   \<lparr> location = None, check_in = None, check_out = None, budget_min = None,
     budget_max = Some 150, adults = Some 1, children = Some 0, rooms = Some 1,
     preferences = None \<rparr>"
  by (simp add: fallback_extract_parameters_def text_simps extract_budget_patterns_def
      locations_def pref_keywords_def detect_tags_def Let_def)

lemma cheap_stay_budget: "detect_budget filter_budget_patterns (lower ''cheap stay'') = Some 100"
  by (simp add: text_simps filter_budget_patterns_def)

lemma cheap_stay_tags: "detect_tags preference_keywords (lower ''cheap stay'') = [''budget'']"
  by (simp add: text_simps preference_keywords_def detect_tags_def)

lemma cheap_stay_extract: "budget_max (fallback_extract_parameters ''cheap stay'') = None"
  by (simp add: fallback_extract_parameters_def text_simps extract_budget_patterns_def
      locations_def pref_keywords_def detect_tags_def Let_def)




section \<open>Parameter extraction: which failures reach the fallback\<close>

lemma extract_without_credential:
  "openai_api_key env = [] \<Longrightarrow> extract_search_parameters env demand = Inl AttributeError"
  by (simp add: extract_search_parameters_def)




section \<open>The synthetic provider: coordinate offsets\<close>

lemma lng_offset_ignores_index:
  "get_coord_offset lh i ''lng'' = get_coord_offset lh j ''lng''"
  by (simp add: get_coord_offset_def)

lemma shift_200:
  "(lh + (i + 2) * 100) mod 200 = (lh + i * 100) mod (200::int)"
proof -
  have "lh + (i + 2) * 100 = (lh + i * 100) + 200" by (simp add: algebra_simps)
  then show ?thesis by (simp only: mod_add_self2)
qed

lemma lat_offset_parity:
  "get_coord_offset lh (i + 2) ''lat'' = get_coord_offset lh i ''lat''"
proof -
  have m: "(if ''lat'' = ''lat'' then (100::int) else 200) = 100" by simp
  show ?thesis unfolding get_coord_offset_def Let_def m shift_200 ..
qed

lemma catalog_length: "length (generate_mock_hotel_database rt loc coords qh) = 10"
  by (simp add: generate_mock_hotel_database_def Let_def)

lemma catalog_coordinates:
  "map (\<lambda>h. (latitude h, longitude h)) (generate_mock_hotel_database rt loc coords qh) =
    (let lh = py_hash rt loc mod 10000;
         pos = (\<lambda>i. (Some (fst coords + get_coord_offset lh i ''lat''),
                     Some (snd coords + get_coord_offset lh i ''lng'')))
     in [pos 0, pos 1, pos 2, pos 3, pos 4, pos 3, pos 2, pos 7, pos 3, pos 2])"
  by (simp add: generate_mock_hotel_database_def Let_def)

lemma catalog_ids:
  "map hotel_id (generate_mock_hotel_database rt loc coords qh) =
    map (\<lambda>s. Some (qh @ s))
      [''_luxury_1'', ''_resort_1'', ''_boutique_1'', ''_business_1'', ''_family_1'',
       ''_mid_1'', ''_spa_1'', ''_budget_1'', ''_historic_1'', ''_eco_1'']"
  by (simp add: generate_mock_hotel_database_def Let_def)

text \<open>
  C5. The offsets are a function of \<open>hash(location) % 10000\<close> and the index passed, so they
  are the same on every call with the same hash; but they do not differ across archetypes:
  the longitude offset ignores the index (\<open>index * 200 % 200 = 0\<close>), the latitude offset
  depends on the index's parity only (\<open>index * 100 % 200\<close>), and the catalog passes the
  indices 0, 1, 2, 3, 4, 3, 2, 7, 3, 2. The business (fourth) and mid-range (sixth)
  archetypes, with different identifiers, get the same latitude and the same longitude, and
  all ten archetypes get the same longitude.
\<close>

theorem coordinate_offsets_shared_across_archetypes:
  "get_coord_offset lh i ''lng'' = get_coord_offset lh j ''lng''
   \<and> get_coord_offset lh (i + 2) ''lat'' = get_coord_offset lh i ''lat''
   \<and> latitude (generate_mock_hotel_database rt loc coords qh ! 3)
       = latitude (generate_mock_hotel_database rt loc coords qh ! 5)
   \<and> longitude (generate_mock_hotel_database rt loc coords qh ! 3)
       = longitude (generate_mock_hotel_database rt loc coords qh ! 5)
   \<and> hotel_id (generate_mock_hotel_database rt loc coords qh ! 3)
       \<noteq> hotel_id (generate_mock_hotel_database rt loc coords qh ! 5)
   \<and> length (remdups (map longitude (generate_mock_hotel_database rt loc coords qh))) = 1"
proof -
  let ?db = "generate_mock_hotel_database rt loc coords qh"
  have len: "length ?db = 10" by (rule catalog_length)
  have nth_c: "(latitude (?db ! k), longitude (?db ! k))
               = map (\<lambda>h. (latitude h, longitude h)) ?db ! k" if "k < 10" for k
    using that len by simp
  have c3: "(latitude (?db ! 3), longitude (?db ! 3))
            = (latitude (?db ! 5), longitude (?db ! 5))"
    unfolding nth_c[of 3, simplified] nth_c[of 5, simplified] catalog_coordinates
    by (simp add: Let_def)
  have nth_i: "hotel_id (?db ! k) = map hotel_id ?db ! k" if "k < 10" for k
    using that len by simp
  have i35: "hotel_id (?db ! 3) \<noteq> hotel_id (?db ! 5)"
    unfolding nth_i[of 3, simplified] nth_i[of 5, simplified] catalog_ids
    by simp
  have lngs: "map longitude ?db = map snd (map (\<lambda>h. (latitude h, longitude h)) ?db)"
    by simp
  have one: "length (remdups (map longitude ?db)) = 1"
    unfolding lngs catalog_coordinates
    by (simp add: Let_def get_coord_offset_def)
  from c3 i35 one lng_offset_ignores_index lat_offset_parity show ?thesis by simp
qed

theorem coordinate_offsets_shared_across_archetypes_witness:
  "get_coord_offset 4711 0 ''lat'' = 11 / 10000
   \<and> get_coord_offset 4711 2 ''lat'' = 11 / 10000
   \<and> get_coord_offset 4711 0 ''lng'' = 11 / 10000
   \<and> get_coord_offset 4711 1 ''lng'' = 11 / 10000
   \<and> latitude (generate_mock_hotel_database example_runtime ''Paris'' (48.8566, 2.3522) ''q'' ! 3)
       = latitude (generate_mock_hotel_database example_runtime ''Paris'' (48.8566, 2.3522) ''q'' ! 5)
   \<and> longitude (generate_mock_hotel_database example_runtime ''Paris'' (48.8566, 2.3522) ''q'' ! 3)
       = longitude (generate_mock_hotel_database example_runtime ''Paris'' (48.8566, 2.3522) ''q'' ! 5)"
proof -
  have a: "get_coord_offset 4711 0 ''lat'' = 11 / 10000"
    by (simp add: get_coord_offset_def)
  have b: "get_coord_offset 4711 0 ''lng'' = 11 / 10000"
    by (simp add: get_coord_offset_def)
  note t = coordinate_offsets_shared_across_archetypes
  from t [of 4711 1 0 example_runtime "''Paris''" "(48.8566, 2.3522)" "''q''"]
       t [of 4711 0 0 example_runtime "''Paris''" "(48.8566, 2.3522)" "''q''"]
       a b
  show ?thesis by simp
qed

section \<open>The synthetic provider: budget filter\<close>

lemma set_budget_filter:
  "set (budget_filter p hotels) =
     {h \<in> set hotels.
        (if truthy_num (budget_max p) then get_or 0 (price h) \<le> get_or 0 (budget_max p) else True)
      \<and> (if truthy_num (budget_min p) then get_or 0 (budget_min p) \<le> get_or 0 (price h) else True)}"
  by (auto simp: budget_filter_def Let_def)

text \<open>
  C7, as the code has it. The guards \<open>if parameters.budget_max:\<close> and
  \<open>if parameters.budget_min:\<close> test truthiness, so a bound that is absent or zero does not
  filter. For a budget_max that is present and not zero (and no effective budget_min above
  the price), a candidate priced exactly at budget_max is kept and one priced
  budget_max + 0.01 is dropped; with budget_max absent or zero no candidate is dropped for
  being too expensive, and with budget_min absent or zero none for being too cheap.
\<close>

theorem budget_filter_boundary:
  "(budget_max p = Some b \<and> b \<noteq> 0 \<and> h \<in> set hotels
      \<and> (truthy_num (budget_min p) \<longrightarrow> get_or 0 (budget_min p) \<le> b)
    \<longrightarrow> (price h = Some b \<longrightarrow> h \<in> set (budget_filter p hotels))
        \<and> (price h = Some (b + 1 / 100) \<longrightarrow> h \<notin> set (budget_filter p hotels)))
   \<and> (\<not> truthy_num (budget_max p) \<and> h \<in> set hotels
        \<and> (truthy_num (budget_min p) \<longrightarrow> get_or 0 (budget_min p) \<le> get_or 0 (price h))
    \<longrightarrow> h \<in> set (budget_filter p hotels))
   \<and> (\<not> truthy_num (budget_min p) \<and> h \<in> set hotels
        \<and> (truthy_num (budget_max p) \<longrightarrow> get_or 0 (price h) \<le> get_or 0 (budget_max p))
    \<longrightarrow> h \<in> set (budget_filter p hotels))"
  unfolding set_budget_filter
  by (auto simp: truthy_num_def get_or_def)

theorem budget_filter_boundary_witness:
  "example_hotel\<lparr>price := Some 200\<rparr>
     \<in> set (budget_filter (example_parameters\<lparr>budget_max := Some 200\<rparr>)
              [example_hotel\<lparr>price := Some 200\<rparr>, example_hotel\<lparr>price := Some (200 + 1 / 100)\<rparr>])
   \<and> example_hotel\<lparr>price := Some (200 + 1 / 100)\<rparr>
     \<notin> set (budget_filter (example_parameters\<lparr>budget_max := Some 200\<rparr>)
              [example_hotel\<lparr>price := Some 200\<rparr>, example_hotel\<lparr>price := Some (200 + 1 / 100)\<rparr>])
   \<and> example_hotel
     \<in> set (budget_filter (example_parameters\<lparr>budget_max := None\<rparr>) [example_hotel])"
proof -
  let ?p = "example_parameters\<lparr>budget_max := Some 200\<rparr>"
  let ?a = "example_hotel\<lparr>price := Some 200\<rparr>"
  let ?b = "example_hotel\<lparr>price := Some (200 + 1 / 100)\<rparr>"
  have p: "budget_max ?p = Some 200" "\<not> truthy_num (budget_min ?p)"
    by (simp_all add: example_parameters_def truthy_num_def)
  have q: "\<not> truthy_num (budget_max (example_parameters\<lparr>budget_max := None\<rparr>))"
          "\<not> truthy_num (budget_min (example_parameters\<lparr>budget_max := None\<rparr>))"
    by (simp_all add: example_parameters_def truthy_num_def)
  have pa: "price ?a = Some 200" "price ?b = Some (200 + 1 / 100)" by simp_all
  from budget_filter_boundary [of ?p 200 ?a "[?a, ?b]"] p pa
  have 1: "?a \<in> set (budget_filter ?p [?a, ?b])" by simp
  from budget_filter_boundary [of ?p 200 ?b "[?a, ?b]"] p pa
  have 2: "?b \<notin> set (budget_filter ?p [?a, ?b])" by simp
  from budget_filter_boundary
         [of "example_parameters\<lparr>budget_max := None\<rparr>" 0 example_hotel "[example_hotel]"] q
  have 3: "example_hotel \<in> set (budget_filter (example_parameters\<lparr>budget_max := None\<rparr>) [example_hotel])"
    by simp
  from 1 2 3 show ?thesis by simp
qed

text \<open>
  A budget_max that is present and zero: the candidate priced budget_max + 0.01 is kept.
\<close>

theorem budget_filter_zero_bound_counterexample:
  "budget_max (example_parameters\<lparr>budget_max := Some 0\<rparr>) = Some 0
   \<and> price (example_hotel\<lparr>price := Some (0 + 1 / 100)\<rparr>) = Some (0 + 1 / 100)
   \<and> example_hotel\<lparr>price := Some (0 + 1 / 100)\<rparr>
       \<in> set (budget_filter (example_parameters\<lparr>budget_max := Some 0\<rparr>)
                [example_hotel\<lparr>price := Some (0 + 1 / 100)\<rparr>])"
  by (simp add: budget_filter_def example_parameters_def truthy_num_def Let_def)

section \<open>The synthetic provider: fingerprint\<close>

lemma get_mock_hotels_depends_on:
  assumes "location_or_default p = location_or_default q"
      and "budget_min p = budget_min q" and "budget_max p = budget_max q"
      and "preferences p = preferences q"
  shows "query_hash rt p = query_hash rt q \<and> get_mock_hotels rt p = get_mock_hotels rt q"
proof -
  have t: "query_text rt p = query_text rt q"
    using assms by (simp add: query_text_def)
  have h: "query_hash rt p = query_hash rt q"
    by (simp add: query_hash_def t)
  have f: "filter_mock_hotels hs p = filter_mock_hotels hs q" for hs
    using assms by (simp add: filter_mock_hotels_def budget_filter_def)
  show ?thesis
    using assms(1) h f by (simp add: get_mock_hotels_def Let_def)
qed

text \<open>
  C8, as the code has it. The fingerprint is the first eight characters of the MD5 digest
  of the text \<open>location_budget_min_budget_max_preferences\<close>, where an absent or empty
  location is rendered as "Paris". Tuples that agree on the budget bounds, the preferences
  and the location so rendered (identical tuples among them) get the same fingerprint, the
  same identifiers and the same candidates.
\<close>

theorem fingerprint_of_equal_queries:
  "location_or_default p = location_or_default q \<and> budget_min p = budget_min q
     \<and> budget_max p = budget_max q \<and> preferences p = preferences q
   \<longrightarrow> query_hash rt p = query_hash rt q
       \<and> length (query_hash rt p) \<le> 8
       \<and> map hotel_id (get_mock_hotels rt p) = map hotel_id (get_mock_hotels rt q)"
proof -
  have l: "length (query_hash rt x) \<le> 8" for x by (simp add: query_hash_def)
  show ?thesis using l [of p] get_mock_hotels_depends_on [of p q rt] by metis
qed

theorem fingerprint_of_equal_queries_witness:
  "query_hash example_runtime (example_parameters\<lparr>adults := Some 2\<rparr>)
     = query_hash example_runtime example_parameters
   \<and> map hotel_id (get_mock_hotels example_runtime (example_parameters\<lparr>adults := Some 2\<rparr>))
     = map hotel_id (get_mock_hotels example_runtime example_parameters)"
proof -
  have "location_or_default (example_parameters\<lparr>adults := Some 2\<rparr>)
        = location_or_default example_parameters"
    by (simp add: location_or_default_def)
  then show ?thesis
    using fingerprint_of_equal_queries
            [of "example_parameters\<lparr>adults := Some 2\<rparr>" example_parameters example_runtime]
    by simp
qed

text \<open>
  Two tuples that differ in the location field, absent against "Paris", with the same
  fingerprint, whatever the hash function.
\<close>

theorem fingerprint_collision_counterexample:
  "example_parameters\<lparr>location := None\<rparr> \<noteq> example_parameters\<lparr>location := Some ''Paris''\<rparr>
   \<and> (\<forall>rt. query_hash rt (example_parameters\<lparr>location := None\<rparr>)
            = query_hash rt (example_parameters\<lparr>location := Some ''Paris''\<rparr>))"
proof -
  have "location (example_parameters\<lparr>location := None\<rparr>)
        \<noteq> location (example_parameters\<lparr>location := Some ''Paris''\<rparr>)" by simp
  then have ne: "example_parameters\<lparr>location := None\<rparr>
                 \<noteq> example_parameters\<lparr>location := Some ''Paris''\<rparr>" by metis
  have "query_text rt (example_parameters\<lparr>location := None\<rparr>)
        = query_text rt (example_parameters\<lparr>location := Some ''Paris''\<rparr>)" for rt
    by (simp add: query_text_def location_or_default_def truthy_str_def get_or_def)
  then show ?thesis using ne by (simp add: query_hash_def)
qed

section \<open>The orchestrator\<close>

lemma extract_ignores_later_stages:
  "extract_search_parameters
     (env\<lparr>chat_filter := cf, parse_ids := pid, db_fail_after := k, db_read_ok := rd\<rparr>) demand
   = extract_search_parameters env demand"
  by (simp add: extract_search_parameters_def
        cong: api_result.case_cong parsed.case_cong if_cong)

text \<open>
  C2. When extraction returns parameters and the candidate search returns the empty list,
  the response has \<open>total_results = 0\<close>, no matched hotels and the message "No hotels found
  matching your criteria."; the request enters the stages EXTRACT and SEARCH only, the store
  is left as it was, and the answer is the same whatever the ranking service, the ranking
  decoder and the store's behaviour are: none of them is consulted.
\<close>

theorem empty_search_short_circuit:
  assumes "extract_search_parameters env demand = Inr e"
      and "search_hotels (runtime env) (booking_api_key env) (provider env)
             (to_search_parameters e) = []"
  shows "recommend_hotels env db demand =
           (Inr \<lparr> user_demand = demand,
                  extracted_parameters = to_search_parameters e,
                  matched_hotels = [],
                  total_results = 0,
                  message = Some ''No hotels found matching your criteria.'' \<rparr>,
            db, [EXTRACT, SEARCH])
         \<and> recommend_hotels
             (env\<lparr>chat_filter := cf, parse_ids := pid, db_fail_after := k, db_read_ok := rd\<rparr>)
             db demand
           = recommend_hotels env db demand"
proof -
  have a: "recommend_hotels env db demand =
           (Inr \<lparr> user_demand = demand,
                  extracted_parameters = to_search_parameters e,
                  matched_hotels = [],
                  total_results = 0,
                  message = Some ''No hotels found matching your criteria.'' \<rparr>,
            db, [EXTRACT, SEARCH])"
    using assms by (simp add: recommend_hotels_def Let_def)
  let ?env = "env\<lparr>chat_filter := cf, parse_ids := pid, db_fail_after := k, db_read_ok := rd\<rparr>"
  have x: "extract_search_parameters ?env demand = Inr e"
    using assms(1) by (simp add: extract_ignores_later_stages)
  have s: "search_hotels (runtime ?env) (booking_api_key ?env) (provider ?env)
             (to_search_parameters e) = []"
    using assms(2) by simp
  have b: "recommend_hotels ?env db demand =
           (Inr \<lparr> user_demand = demand,
                  extracted_parameters = to_search_parameters e,
                  matched_hotels = [],
                  total_results = 0,
                  message = Some ''No hotels found matching your criteria.'' \<rparr>,
            db, [EXTRACT, SEARCH])"
    using x s by (simp add: recommend_hotels_def Let_def)
  from a b show ?thesis by simp
qed

lemma example_extraction:
  "extract_search_parameters (live_environment hs) ''hotels under 150''
     = Inr (fallback_extract_parameters ''hotels under 150'')"
  by (simp add: extract_search_parameters_def live_environment_def example_environment_def)

theorem empty_search_short_circuit_witness:
  "recommend_hotels (live_environment []) Map.empty ''hotels under 150'' =
     (Inr \<lparr> user_demand = ''hotels under 150'',
            extracted_parameters =
              \<lparr> location = None, check_in = None, check_out = None, budget_min = None,
                budget_max = Some 150, adults = Some 1, children = Some 0, rooms = Some 1,
                preferences = Some [] \<rparr>,
            matched_hotels = [],
            total_results = 0,
            message = Some ''No hotels found matching your criteria.'' \<rparr>,
      Map.empty, [EXTRACT, SEARCH])"
proof -
  have s: "search_hotels (runtime (live_environment [])) (booking_api_key (live_environment []))
             (provider (live_environment []))
             (to_search_parameters (fallback_extract_parameters ''hotels under 150'')) = []"
    by (simp add: search_hotels_def live_environment_def)
  have p: "to_search_parameters (fallback_extract_parameters ''hotels under 150'') =
             \<lparr> location = None, check_in = None, check_out = None, budget_min = None,
                budget_max = Some 150, adults = Some 1, children = Some 0, rooms = Some 1,
                preferences = Some [] \<rparr>"
    by (simp add: under_150 to_search_parameters_def int_or_def get_or_def)
  show ?thesis
    using empty_search_short_circuit [OF example_extraction s, of Map.empty]
    by (simp add: p)
qed

text \<open>
  C10. Every response of \<open>recommend_hotels\<close>, the empty-search one and the normal one,
  has \<open>total_results\<close> equal to the length of \<open>matched_hotels\<close>.
\<close>

theorem total_results_is_length:
  "recommend_hotels env db demand = (Inr r, db2, stages)
   \<Longrightarrow> total_results r = int (length (matched_hotels r))"
  by (auto simp: recommend_hotels_def Let_def split: sum.splits if_splits)

lemmas hotel_simps = get_or_def truthy_num_def truthy_str_def hotel_id_str_def

lemma example_scores:
  "hotel_score (Some 100) [''budget''] example_hotel = 247 / 10"
  "hotel_score (Some 100) [''budget''] example_hotel_2 = 67 / 20"
  by (simp_all add: hotel_score_def rating_or_review_def example_hotel_def example_hotel_2_def
      hotel_simps Let_def text_simps cong: let_weak_cong)

lemma example_ids:
  "hotel_id_str example_hotel = ''h1''" "hotel_id_str example_hotel_2 = ''h2''"
  "hotel_id example_hotel = Some ''h1''" "hotel_id example_hotel_2 = Some ''h2''"
  by (simp_all add: example_hotel_def example_hotel_2_def hotel_simps)

lemma example_ranking:
  "fallback_filter_hotels ''cheap stay'' [example_hotel_2, example_hotel] = [''h1'', ''h2'']"
  by (simp add: fallback_filter_hotels_def scored_hotels_def sort_reverse_def
      cheap_stay_budget cheap_stay_tags example_scores example_ids)

lemma example_not_empty:
  "example_hotel \<noteq> empty_hotel" "example_hotel_2 \<noteq> empty_hotel"
proof -
  have "hotel_id example_hotel \<noteq> hotel_id empty_hotel"
    by (simp add: example_ids empty_hotel_def)
  then show "example_hotel \<noteq> empty_hotel" by metis
  have "hotel_id example_hotel_2 \<noteq> hotel_id empty_hotel"
    by (simp add: example_ids empty_hotel_def)
  then show "example_hotel_2 \<noteq> empty_hotel" by metis
qed

lemma example_hydrate:
  "hydrate rd db [example_hotel_2, example_hotel] [''h1'', ''h2'']
     = [make_hotel_info example_hotel, make_hotel_info example_hotel_2]"
  by (simp add: hydrate_def hotels_by_id_def hotel_data_for_def example_ids example_not_empty
      truthy_str_def)

lemma recommend_hotels_normal:
  assumes "extract_search_parameters env demand = Inr e"
      and "search_hotels (runtime env) (booking_api_key env) (provider env)
             (to_search_parameters e) = hotels"
      and "hotels \<noteq> []"
      and "fst (bulk_create_or_update_hotels (db_fail_after env) db hotels) = db2"
      and "hydrate (db_read_ok env) db2 hotels (filter_hotels_by_demand env demand hotels) = matched"
  shows "recommend_hotels env db demand =
           (Inr \<lparr> user_demand = demand,
                  extracted_parameters = to_search_parameters e,
                  matched_hotels = matched,
                  total_results = int (length matched),
                  message = Some (''Found '' @ str_nat (length matched) @
                                  '' hotels matching your preferences.'') \<rparr>,
            db2, [EXTRACT, SEARCH, PERSIST, RANK, HYDRATE])"
  using assms by (simp add: recommend_hotels_def Let_def)

lemma example_request:
  "recommend_hotels (live_environment [example_hotel_2, example_hotel]) Map.empty ''cheap stay''
   = (Inr \<lparr> user_demand = ''cheap stay'',
              extracted_parameters = to_search_parameters (fallback_extract_parameters ''cheap stay''),
              matched_hotels = [make_hotel_info example_hotel, make_hotel_info example_hotel_2],
              total_results = 2,
              message = Some ''Found 2 hotels matching your preferences.'' \<rparr>,
      [''h2'' \<mapsto> example_hotel_2, ''h1'' \<mapsto> example_hotel],
      [EXTRACT, SEARCH, PERSIST, RANK, HYDRATE])"
proof -
  let ?env = "live_environment [example_hotel_2, example_hotel]"
  have x: "extract_search_parameters ?env ''cheap stay''
           = Inr (fallback_extract_parameters ''cheap stay'')"
    by (simp add: extract_search_parameters_def live_environment_def example_environment_def)
  have s: "search_hotels (runtime ?env) (booking_api_key ?env) (provider ?env) p
           = [example_hotel_2, example_hotel]" for p
    by (simp add: search_hotels_def live_environment_def)
  have r: "filter_hotels_by_demand ?env ''cheap stay'' [example_hotel_2, example_hotel]
           = [''h1'', ''h2'']"
    by (simp add: filter_hotels_by_demand_def live_environment_def example_environment_def
        example_ranking)
  have w: "bulk_create_or_update_hotels (db_fail_after ?env) Map.empty
             [example_hotel_2, example_hotel]
           = ([''h2'' \<mapsto> example_hotel_2, ''h1'' \<mapsto> example_hotel], True)"
    by (simp add: live_environment_def example_environment_def example_ids)
  have n: "str_nat (Suc (Suc 0)) = ''2''" by (simp add: str_nat.simps digit_char_def)
  have h: "hydrate (db_read_ok ?env) [''h2'' \<mapsto> example_hotel_2, ''h1'' \<mapsto> example_hotel]
             [example_hotel_2, example_hotel]
             (filter_hotels_by_demand ?env ''cheap stay'' [example_hotel_2, example_hotel])
           = [make_hotel_info example_hotel, make_hotel_info example_hotel_2]"
    by (simp only: r example_hydrate)
  have w1: "fst (bulk_create_or_update_hotels (db_fail_after ?env) Map.empty
                  [example_hotel_2, example_hotel])
            = [''h2'' \<mapsto> example_hotel_2, ''h1'' \<mapsto> example_hotel]"
    by (simp only: w fst_conv)
  have "[example_hotel_2, example_hotel] \<noteq> []" by simp
  from recommend_hotels_normal [OF x s this w1 h] n show ?thesis by simp
qed

theorem total_results_is_length_witness:
  "recommend_hotels (live_environment [example_hotel_2, example_hotel]) Map.empty ''cheap stay''
   = (Inr \<lparr> user_demand = ''cheap stay'',
              extracted_parameters = to_search_parameters (fallback_extract_parameters ''cheap stay''),
              matched_hotels = [make_hotel_info example_hotel, make_hotel_info example_hotel_2],
              total_results = 2,
              message = Some ''Found 2 hotels matching your preferences.'' \<rparr>,
      [''h2'' \<mapsto> example_hotel_2, ''h1'' \<mapsto> example_hotel],
      [EXTRACT, SEARCH, PERSIST, RANK, HYDRATE])
   \<and> (2::int) = int (length [make_hotel_info example_hotel, make_hotel_info example_hotel_2])"
  using total_results_is_length [OF example_request] example_request by simp

section \<open>Hydration\<close>

text \<open>The lookup table holds, for an identifier, the last fresh candidate that carries it.\<close>

lemma hotels_by_id_find:
  "hotels_by_id hotels i
     = find (\<lambda>h. truthy_str (hotel_id h) \<and> hotel_id_str h = i) (rev hotels)"
proof (induction hotels rule: rev_induct)
  case Nil
  show ?case by (simp add: hotels_by_id_def)
next
  case (snoc h hs)
  then show ?case by (simp add: hotels_by_id_def)
qed

lemma keyed_iff:
  "(truthy_str (hotel_id h) \<and> hotel_id_str h = i) = (hotel_id h = Some i \<and> i \<noteq> [])"
  by (cases "hotel_id h") (auto simp: truthy_str_def hotel_id_str_def get_or_def)

lemma hotels_by_id_SomeD:
  assumes "hotels_by_id hotels i = Some h"
  shows "h \<in> set hotels \<and> hotel_id h = Some i \<and> i \<noteq> []"
proof -
  from assms have f: "find (\<lambda>h. hotel_id h = Some i \<and> i \<noteq> []) (rev hotels) = Some h"
    by (simp add: hotels_by_id_find keyed_iff)
  then obtain k where "k < length (rev hotels)" "rev hotels ! k = h"
      "hotel_id (rev hotels ! k) = Some i \<and> i \<noteq> []"
    by (auto simp: find_Some_iff)
  then show ?thesis by (metis nth_mem set_rev)
qed

lemma hotels_by_id_present:
  assumes "h \<in> set hotels" and "hotel_id h = Some i" and "i \<noteq> []"
  shows "\<exists>h2. hotels_by_id hotels i = Some h2"
proof (cases "hotels_by_id hotels i")
  case None
  then have "\<not> (\<exists>x. x \<in> set (rev hotels) \<and> (hotel_id x = Some i \<and> i \<noteq> []))"
    by (simp add: hotels_by_id_find keyed_iff find_None_iff)
  with assms show ?thesis by auto
next
  case (Some a)
  then show ?thesis by simp
qed

lemma hotels_by_id_absent:
  assumes "\<forall>h\<in>set hotels. hotel_id h \<noteq> Some i"
  shows "hotels_by_id hotels i = None"
proof (cases "hotels_by_id hotels i")
  case None
  then show ?thesis .
next
  case (Some h)
  from hotels_by_id_SomeD [OF Some] assms show ?thesis by blast
qed

lemma keyed_not_empty: "hotel_id h = Some i \<Longrightarrow> h \<noteq> empty_hotel"
proof
  assume a: "hotel_id h = Some i" and "h = empty_hotel"
  then have "hotel_id h = None" by (simp add: empty_hotel_def)
  with a show False by simp
qed

lemma hydrate_loop_acc:
  "hydrate_loop rd db m ids acc = acc @ hydrate_loop rd db m ids []"
proof (induction ids arbitrary: acc)
  case Nil
  show ?case by simp
next
  case (Cons i ids)
  show ?case
  proof (cases "hotel_data_for rd db m i")
    case None
    then show ?thesis using Cons.IH [of acc] by simp
  next
    case (Some d)
    show ?thesis
    proof (cases "d = empty_hotel")
      case True
      with Some show ?thesis using Cons.IH [of acc] by simp
    next
      case False
      with Some show ?thesis
        using Cons.IH [of "acc @ [make_hotel_info d]"] Cons.IH [of "[make_hotel_info d]"]
        by simp
    qed
  qed
qed

lemma hydrate_loop_append:
  "hydrate_loop rd db m (ids @ ids2) acc
     = hydrate_loop rd db m ids2 (hydrate_loop rd db m ids acc)"
  by (induction ids arbitrary: acc) (simp_all split: option.splits)

lemma hydrate_append:
  "hydrate rd db hotels (ids @ ids2) = hydrate rd db hotels ids @ hydrate rd db hotels ids2"
  unfolding hydrate_def hydrate_loop_append
  by (rule hydrate_loop_acc)

lemma hydrate_single:
  "hydrate rd db hotels [i] =
     (case hotel_data_for rd db (hotels_by_id hotels) i of
        None \<Rightarrow> []
      | Some d \<Rightarrow> if d \<noteq> empty_hotel then [make_hotel_info d] else [])"
  by (simp add: hydrate_def split: option.splits)

lemma hydrate_fresh:
  assumes "hotels_by_id hotels i = Some h"
  shows "hydrate rd db hotels [i] = [make_hotel_info h]"
proof -
  from hotels_by_id_SomeD [OF assms] have "h \<noteq> empty_hotel"
    using keyed_not_empty by blast
  then show ?thesis using assms by (simp add: hydrate_single hotel_data_for_def)
qed

lemma hydrate_member:
  assumes "i \<in> set ids" and "x \<in> set (hydrate rd db hotels [i])"
  shows "x \<in> set (hydrate rd db hotels ids)"
proof -
  from assms(1) obtain pre post where ids: "ids = pre @ ([i] @ post)"
    by (metis append_Cons append_Nil split_list)
  have "hydrate rd db hotels ids
        = hydrate rd db hotels pre @ hydrate rd db hotels [i] @ hydrate rd db hotels post"
    unfolding ids by (simp only: hydrate_append)
  then show ?thesis using assms(2) by simp
qed

text \<open>
  C1. Step 4 of \<open>recommend_hotels\<close> resolves each ranked identifier on its own and in
  order. An identifier carried by a fresh candidate yields that candidate's payload,
  whatever the store holds for it (with several fresh candidates under one identifier, one
  of them; with one, that one). Only an identifier no fresh candidate carries is looked up
  in the store, and yields the stored payload when the read succeeds and the payload is not
  empty. An identifier found in neither is left out. In the response of a request, the
  matched hotels are the ranked identifiers so resolved, so a ranked identifier with a
  fresh candidate appears with the fresh payload.
\<close>

theorem hydration_precedence:
  "(i \<noteq> [] \<and> (\<exists>h\<in>set hotels. hotel_id h = Some i)
      \<longrightarrow> (\<exists>h\<in>set hotels. hotel_id h = Some i
             \<and> hydrate rd db hotels [i] = [make_hotel_info h]))
   \<and> (i \<noteq> [] \<and> h \<in> set hotels \<and> hotel_id h = Some i
        \<and> (\<forall>h2\<in>set hotels. hotel_id h2 = Some i \<longrightarrow> h2 = h)
      \<longrightarrow> hydrate rd db hotels [i] = [make_hotel_info h])
   \<and> ((\<forall>h\<in>set hotels. hotel_id h \<noteq> Some i) \<and> rd i \<and> db i = Some b \<and> b \<noteq> empty_hotel
      \<longrightarrow> hydrate rd db hotels [i] = [make_hotel_info b])
   \<and> ((\<forall>h\<in>set hotels. hotel_id h \<noteq> Some i) \<and> (db i = None \<or> \<not> rd i)
      \<longrightarrow> hydrate rd db hotels [i] = [])
   \<and> hydrate rd db hotels (ids @ ids2) = hydrate rd db hotels ids @ hydrate rd db hotels ids2
   \<and> (extract_search_parameters env demand = Inr e
        \<and> search_hotels (runtime env) (booking_api_key env) (provider env)
             (to_search_parameters e) = hotels
        \<and> recommend_hotels env db demand = (Inr r, db2, stages)
        \<and> i \<in> set (filter_hotels_by_demand env demand hotels)
        \<and> i \<noteq> [] \<and> h \<in> set hotels \<and> hotel_id h = Some i
        \<and> (\<forall>h2\<in>set hotels. hotel_id h2 = Some i \<longrightarrow> h2 = h)
      \<longrightarrow> make_hotel_info h \<in> set (matched_hotels r))"
proof -
  have fresh_some: "\<exists>h\<in>set hotels. hotel_id h = Some i
             \<and> hydrate rd db hotels [i] = [make_hotel_info h]"
    if "i \<noteq> []" and "\<exists>h\<in>set hotels. hotel_id h = Some i" for rd db
  proof -
    from that obtain h0 where "h0 \<in> set hotels" "hotel_id h0 = Some i" by blast
    from hotels_by_id_present [OF this that(1)]
    obtain h2 where h2: "hotels_by_id hotels i = Some h2" by blast
    from hotels_by_id_SomeD [OF h2] hydrate_fresh [OF h2] show ?thesis by blast
  qed
  have fresh_unique: "hydrate rd db hotels [i] = [make_hotel_info h]"
    if "i \<noteq> []" and "h \<in> set hotels" and "hotel_id h = Some i"
      and "\<forall>h2\<in>set hotels. hotel_id h2 = Some i \<longrightarrow> h2 = h" for rd db
  proof -
    from fresh_some [of rd db] that obtain h1 where "h1 \<in> set hotels" "hotel_id h1 = Some i"
      "hydrate rd db hotels [i] = [make_hotel_info h1]" by blast
    with that(4) show ?thesis by auto
  qed
  have stored: "hydrate rd db hotels [i] = [make_hotel_info b]"
    if "\<forall>h\<in>set hotels. hotel_id h \<noteq> Some i" and "rd i" and "db i = Some b"
      and "b \<noteq> empty_hotel"
    using that hotels_by_id_absent [OF that(1)]
    by (simp add: hydrate_single hotel_data_for_def)
  have neither: "hydrate rd db hotels [i] = []"
    if "\<forall>h\<in>set hotels. hotel_id h \<noteq> Some i" and "db i = None \<or> \<not> rd i"
    using that hotels_by_id_absent [OF that(1)]
    by (auto simp: hydrate_single hotel_data_for_def)
  have pipeline: "make_hotel_info h \<in> set (matched_hotels r)"
    if x: "extract_search_parameters env demand = Inr e"
      and s: "search_hotels (runtime env) (booking_api_key env) (provider env)
             (to_search_parameters e) = hotels"
      and r: "recommend_hotels env db demand = (Inr r, db2, stages)"
      and i: "i \<in> set (filter_hotels_by_demand env demand hotels)"
      and u: "i \<noteq> []" "h \<in> set hotels" "hotel_id h = Some i"
             "\<forall>h2\<in>set hotels. hotel_id h2 = Some i \<longrightarrow> h2 = h"
  proof -
    from u(2) have ne: "hotels \<noteq> []" by auto
    let ?db2 = "fst (bulk_create_or_update_hotels (db_fail_after env) db hotels)"
    let ?m = "hydrate (db_read_ok env) ?db2 hotels (filter_hotels_by_demand env demand hotels)"
    from recommend_hotels_normal [OF x s ne refl refl] r
    have m: "matched_hotels r = ?m" by auto
    have "make_hotel_info h \<in> set (hydrate (db_read_ok env) ?db2 hotels [i])"
      using fresh_unique [OF u, of "db_read_ok env" ?db2] by simp
    from hydrate_member [OF i this] m show ?thesis by simp
  qed
  show ?thesis
    using fresh_some [of rd db] fresh_unique [of rd db] stored neither hydrate_append pipeline
    by blast
qed


theorem hydration_precedence_witness:
  "hydrate (\<lambda>i. True) [''h1'' \<mapsto> example_hotel_2, ''h3'' \<mapsto> example_hotel_2]
     [example_hotel] [''h1''] = [make_hotel_info example_hotel]
   \<and> hydrate (\<lambda>i. True) [''h1'' \<mapsto> example_hotel_2, ''h3'' \<mapsto> example_hotel_2]
       [example_hotel] [''h3''] = [make_hotel_info example_hotel_2]
   \<and> hydrate (\<lambda>i. True) [''h1'' \<mapsto> example_hotel_2, ''h3'' \<mapsto> example_hotel_2]
       [example_hotel] [''h9''] = []
   \<and> hydrate (\<lambda>i. True) [''h1'' \<mapsto> example_hotel_2, ''h3'' \<mapsto> example_hotel_2]
       [example_hotel] [''h1'', ''h3'', ''h9'']
     = [make_hotel_info example_hotel, make_hotel_info example_hotel_2]
   \<and> raw_data (make_hotel_info example_hotel) = Some example_hotel
   \<and> example_hotel \<noteq> example_hotel_2"
proof -
  let ?db = "[''h1'' \<mapsto> example_hotel_2, ''h3'' \<mapsto> example_hotel_2]"
  let ?rd = "\<lambda>i::string. True"
  let ?hy = "hydrate ?rd ?db [example_hotel]"
  note t = hydration_precedence [where rd = ?rd and db = ?db and hotels = "[example_hotel]"]
  have 1: "?hy [''h1''] = [make_hotel_info example_hotel]"
    using t [where i = "''h1''" and h = example_hotel] by (simp add: example_ids)
  have 2: "?hy [''h3''] = [make_hotel_info example_hotel_2]"
    using t [where i = "''h3''" and b = example_hotel_2]
    by (simp add: example_ids example_not_empty)
  have 3: "?hy [''h9''] = []"
    using t [where i = "''h9''"] by (simp add: example_ids)
  have 4: "?hy ([''h1''] @ ([''h3''] @ [''h9''])) = ?hy [''h1''] @ (?hy [''h3''] @ ?hy [''h9''])"
    using t [where ids = "[''h1'']" and ?ids2.0 = "[''h3''] @ [''h9'']"]
          t [where ids = "[''h3'']" and ?ids2.0 = "[''h9'']"]
    by (simp only:)
  have 5: "example_hotel \<noteq> example_hotel_2"
  proof
    assume "example_hotel = example_hotel_2"
    then have "hotel_id example_hotel = hotel_id example_hotel_2" by simp
    then show False by (simp add: example_ids)
  qed
  have 6: "raw_data (make_hotel_info example_hotel) = Some example_hotel"
    by (simp add: make_hotel_info_def)
  from 4 have "?hy [''h1'', ''h3'', ''h9'']
               = [make_hotel_info example_hotel, make_hotel_info example_hotel_2]"
    by (simp add: 1 2 3)
  with 1 2 3 5 6 show ?thesis by simp
qed

section \<open>The descending stable sort\<close>

lemma mset_sort_reverse: "mset (sort_reverse f xs) = mset xs"
  by (simp add: sort_reverse_def)

lemma length_sort_reverse: "length (sort_reverse f xs) = length xs"
  by (simp add: sort_reverse_def)

lemma sorted_sort_reverse:
  "sorted_wrt (\<lambda>a b. f a \<ge> f b) (sort_reverse f xs)"
proof -
  have "sorted (map f (sort_key f (rev xs)))" by (rule sorted_sort_key)
  then have "sorted_wrt (\<lambda>a b. f a \<le> f b) (sort_key f (rev xs))"
    by (simp add: sorted_map)
  then show ?thesis by (simp add: sort_reverse_def sorted_wrt_rev)
qed

lemma sort_reverse_stable:
  "filter (\<lambda>x. f x = k) (sort_reverse f xs) = filter (\<lambda>x. f x = k) xs"
proof -
  have "filter (\<lambda>x. f x = k) (sort_reverse f xs)
        = rev (filter (\<lambda>x. f x = k) (sort_key f (rev xs)))"
    by (simp add: sort_reverse_def rev_filter)
  also have "\<dots> = rev (filter (\<lambda>x. f x = k) (rev xs))"
    by (simp only: sort_key_stable)
  also have "\<dots> = filter (\<lambda>x. f x = k) xs"
    by (simp add: rev_filter)
  finally show ?thesis .
qed

lemma filter_sort_reverse:
  "filter P (sort_reverse f xs) = sort_reverse f (filter P xs)"
  by (simp add: sort_reverse_def rev_filter [symmetric] filter_sort)

lemma insort_key_map:
  "insort_key f (g x) (map g xs) = map g (insort_key (\<lambda>y. f (g y)) x xs)"
  by (induction xs) simp_all

lemma sort_key_map:
  "sort_key f (map g xs) = map g (sort_key (\<lambda>y. f (g y)) xs)"
  by (induction xs) (simp_all add: insort_key_map)

lemma sort_reverse_map:
  "sort_reverse f (map g xs) = map g (sort_reverse (\<lambda>y. f (g y)) xs)"
  by (simp add: sort_reverse_def rev_map sort_key_map)


lemma sort_reverse_constant:
  assumes "\<forall>x\<in>set xs. f x = c"
  shows "sort_reverse f xs = xs"
proof -
  have "\<forall>x\<in>set (sort_reverse f xs). f x = c"
    using assms by (simp add: sort_reverse_def)
  then have "filter (\<lambda>x. f x = c) (sort_reverse f xs) = sort_reverse f xs"
    by (simp add: filter_id_conv)
  moreover have "filter (\<lambda>x. f x = c) xs = xs"
    using assms by (simp add: filter_id_conv)
  ultimately show ?thesis using sort_reverse_stable [of f c xs] by simp
qed

section \<open>Rule-based ranking\<close>




section \<open>The synthetic provider: preference bias\<close>

lemma bonus_step:
  assumes "\<exists>n\<le>k. s = 10 * int n" and "Suc k = k2"
  shows "\<exists>n\<le>k2. (if c then s + 10 else s) = 10 * int n"
proof -
  from assms obtain n where n: "n \<le> k" "s = 10 * int n" by blast
  show ?thesis
  proof (cases c)
    case True
    with n assms(2) have "Suc n \<le> k2 \<and> (if c then s + 10 else s) = 10 * int (Suc n)" by auto
    then show ?thesis by blast
  next
    case False
    with n assms(2) have "n \<le> k2 \<and> (if c then s + 10 else s) = 10 * int n" by auto
    then show ?thesis by blast
  qed
qed

lemma preference_score_tens:
  "\<exists>n\<le>8. preference_score pl h = 10 * int n"
  unfolding preference_score_def Let_def
  apply (rule bonus_step [where k = 7])
   apply (rule bonus_step [where k = 6])
    apply (rule bonus_step [where k = 5])
     apply (rule bonus_step [where k = 4])
      apply (rule bonus_step [where k = 3])
       apply (rule bonus_step [where k = 2])
        apply (rule bonus_step [where k = 1])
         apply (rule bonus_step [where k = 0])
          apply simp_all
  done


lemma preference_bias_sorted:
  "preference_bias prefs S =
     sort_reverse (preference_score (map lower prefs))
       (if list_ex (\<lambda>h. 0 < preference_score (map lower prefs) h) S
        then filter (\<lambda>h. 0 < preference_score (map lower prefs) h) S else S)"
proof -
  let ?score = "preference_score (map lower prefs)"
  let ?g = "\<lambda>h. (?score h, h)"
  have ranked: "sort_reverse fst (map ?g S) = map ?g (sort_reverse ?score S)"
    by (simp add: sort_reverse_map)
  have all: "map snd (map ?g (sort_reverse ?score S)) = sort_reverse ?score S"
    by (simp add: comp_def)
  have pos: "map snd (filter (\<lambda>(s, h). 0 < s) (map ?g (sort_reverse ?score S)))
             = sort_reverse ?score (filter (\<lambda>h. 0 < ?score h) S)"
    by (simp add: filter_map comp_def filter_sort_reverse)
  have ne: "(sort_reverse ?score (filter (\<lambda>h. 0 < ?score h) S) \<noteq> [])
            = list_ex (\<lambda>h. 0 < ?score h) S"
  proof -
    have "(sort_reverse ?score (filter (\<lambda>h. 0 < ?score h) S) = [])
          = (filter (\<lambda>h. 0 < ?score h) S = [])"
      using length_sort_reverse [of ?score "filter (\<lambda>h. 0 < ?score h) S"]
      by (metis length_0_conv)
    then show ?thesis by (simp add: filter_empty_conv list_ex_iff)
  qed
  show ?thesis
    unfolding preference_bias_def Let_def ranked all pos ne
    by simp
qed

lemma preference_score_nonneg: "0 \<le> preference_score pl h"
  using preference_score_tens [of pl h] by auto

lemma filter_mock_hotels_with_preferences:
  assumes "get_or [] (preferences p) \<noteq> []"
  shows "filter_mock_hotels hotels p
         = take 12 (preference_bias (get_or [] (preferences p)) (budget_filter p hotels))"
  using assms by (simp add: filter_mock_hotels_def Let_def)

text \<open>
  C6, as the code has it. With preferences present, let \<open>score\<close> be the preference score, \<open>survivors\<close> the
  candidates the budget filter keeps, and \<open>chosen\<close> the survivors with a positive score, or
  all survivors when none has one. Every score is ten times the number of the eight tag
  rules that hold. The result is the first twelve of \<open>chosen\<close> arranged by descending score,
  equal scores in catalog order. When every survivor scored zero the result is the first
  twelve survivors in catalog order, so it is empty only when no candidate survived the
  budget filter. The result has at most twelve items and, when \<open>chosen\<close> has at most
  twelve, holds all of them.
\<close>

theorem preference_bias_ranking:
  assumes "get_or [] (preferences p) \<noteq> []"
  shows "(let score = preference_score (map lower (get_or [] (preferences p)));
              survivors = budget_filter p hotels;
              chosen = (if list_ex (\<lambda>h. 0 < score h) survivors
                        then filter (\<lambda>h. 0 < score h) survivors else survivors)
          in (\<forall>h. \<exists>n\<le>8. score h = 10 * int n)
           \<and> (\<exists>ranked. filter_mock_hotels hotels p = take 12 ranked
                 \<and> mset ranked = mset chosen
                 \<and> sorted_wrt (\<lambda>a b. score a \<ge> score b) ranked
                 \<and> (\<forall>k. filter (\<lambda>h. score h = k) ranked = filter (\<lambda>h. score h = k) chosen))
           \<and> (list_all (\<lambda>h. score h = 0) survivors
                 \<longrightarrow> filter_mock_hotels hotels p = take 12 survivors)
           \<and> (survivors \<noteq> [] \<longrightarrow> filter_mock_hotels hotels p \<noteq> [])
           \<and> length (filter_mock_hotels hotels p) \<le> 12
           \<and> (length chosen \<le> 12 \<longrightarrow> mset (filter_mock_hotels hotels p) = mset chosen))"
proof -
  define score where "score = preference_score (map lower (get_or [] (preferences p)))"
  define survivors where "survivors = budget_filter p hotels"
  define chosen where "chosen = (if list_ex (\<lambda>h. 0 < score h) survivors
                        then filter (\<lambda>h. 0 < score h) survivors else survivors)"
  define ranked where "ranked = sort_reverse score chosen"
  have res: "filter_mock_hotels hotels p = take 12 ranked"
    unfolding filter_mock_hotels_with_preferences [OF assms] preference_bias_sorted
      ranked_def chosen_def score_def survivors_def ..
  have tens: "\<forall>h. \<exists>n\<le>8. score h = 10 * int n"
    unfolding score_def using preference_score_tens by blast
  have m: "mset ranked = mset chosen"
    unfolding ranked_def by (rule mset_sort_reverse)
  have s: "sorted_wrt (\<lambda>a b. score a \<ge> score b) ranked"
    unfolding ranked_def by (rule sorted_sort_reverse)
  have st: "\<forall>k. filter (\<lambda>h. score h = k) ranked = filter (\<lambda>h. score h = k) chosen"
    unfolding ranked_def by (simp add: sort_reverse_stable)
  have ex: "\<exists>r. filter_mock_hotels hotels p = take 12 r \<and> mset r = mset chosen
              \<and> sorted_wrt (\<lambda>a b. score a \<ge> score b) r
              \<and> (\<forall>k. filter (\<lambda>h. score h = k) r = filter (\<lambda>h. score h = k) chosen)"
    using res m s st by blast
  have zero: "filter_mock_hotels hotels p = take 12 survivors"
    if z: "list_all (\<lambda>h. score h = 0) survivors"
  proof -
    from z have "\<not> list_ex (\<lambda>h. 0 < score h) survivors"
      by (auto simp: list_all_iff list_ex_iff)
    then have c: "chosen = survivors" by (simp add: chosen_def)
    from z have "\<forall>h\<in>set survivors. score h = 0" by (simp add: list_all_iff)
    then have "sort_reverse score survivors = survivors" by (rule sort_reverse_constant)
    then show ?thesis by (simp add: res ranked_def c)
  qed
  have chosen_ne: "chosen \<noteq> []" if "survivors \<noteq> []"
  proof (cases "list_ex (\<lambda>h. 0 < score h) survivors")
    case True
    then have "filter (\<lambda>h. 0 < score h) survivors \<noteq> []"
      by (simp add: filter_empty_conv list_ex_iff)
    with True show ?thesis by (simp add: chosen_def)
  next
    case False
    with that show ?thesis by (simp add: chosen_def)
  qed
  have ne: "filter_mock_hotels hotels p \<noteq> []" if "survivors \<noteq> []"
  proof -
    from chosen_ne [OF that] m have "ranked \<noteq> []" by auto
    then show ?thesis by (simp add: res)
  qed
  have len: "length (filter_mock_hotels hotels p) \<le> 12"
    by (simp add: res)
  have full: "mset (filter_mock_hotels hotels p) = mset chosen" if "length chosen \<le> 12"
  proof -
    have "length ranked = length chosen"
      unfolding ranked_def by (rule length_sort_reverse)
    with that have "take 12 ranked = ranked" by simp
    then show ?thesis by (simp add: res m)
  qed
  from tens ex zero ne len full
  have all: "(\<forall>h. \<exists>n\<le>8. score h = 10 * int n)
           \<and> (\<exists>ranked. filter_mock_hotels hotels p = take 12 ranked
                 \<and> mset ranked = mset chosen
                 \<and> sorted_wrt (\<lambda>a b. score a \<ge> score b) ranked
                 \<and> (\<forall>k. filter (\<lambda>h. score h = k) ranked = filter (\<lambda>h. score h = k) chosen))
           \<and> (list_all (\<lambda>h. score h = 0) survivors
                 \<longrightarrow> filter_mock_hotels hotels p = take 12 survivors)
           \<and> (survivors \<noteq> [] \<longrightarrow> filter_mock_hotels hotels p \<noteq> [])
           \<and> length (filter_mock_hotels hotels p) \<le> 12
           \<and> (length chosen \<le> 12 \<longrightarrow> mset (filter_mock_hotels hotels p) = mset chosen)"
    by blast
  show ?thesis
    unfolding Let_def by (rule all [unfolded chosen_def score_def survivors_def])
qed


lemma example_preference_scores:
  "preference_score [''luxury''] example_hotel = 0"
  "preference_score [''luxury''] example_hotel_2 = 10"
  "preference_score [''business''] example_hotel = 0"
  "preference_score [''business''] example_hotel_2 = 0"
  by (simp_all add: preference_score_def example_hotel_def example_hotel_2_def
      hotel_simps Let_def text_simps cong: let_weak_cong)

lemma example_no_budget:
  "budget_filter (example_parameters\<lparr>preferences := v\<rparr>) hotels = hotels"
  by (simp add: budget_filter_def example_parameters_def truthy_num_def)

theorem preference_bias_ranking_witness:
  "preference_score (map lower [''Luxury'']) example_hotel = 0
   \<and> preference_score (map lower [''Luxury'']) example_hotel_2 = 10
   \<and> filter_mock_hotels [example_hotel, example_hotel_2]
        (example_parameters\<lparr>preferences := Some [''Luxury'']\<rparr>) = [example_hotel_2]
   \<and> preference_score (map lower [''Business'']) example_hotel = 0
   \<and> preference_score (map lower [''Business'']) example_hotel_2 = 0
   \<and> filter_mock_hotels [example_hotel, example_hotel_2]
        (example_parameters\<lparr>preferences := Some [''Business'']\<rparr>)
       = [example_hotel, example_hotel_2]"
proof -
  let ?hs = "[example_hotel, example_hotel_2]"
  let ?lux = "example_parameters\<lparr>preferences := Some [''Luxury'']\<rparr>"
  let ?biz = "example_parameters\<lparr>preferences := Some [''Business'']\<rparr>"
  have l: "map lower [''Luxury''] = [''luxury'']" "map lower [''Business''] = [''business'']"
    by (simp_all add: text_simps)
  have pl: "get_or [] (preferences ?lux) = [''Luxury'']"
    and pb: "get_or [] (preferences ?biz) = [''Business'']"
    by (simp_all add: get_or_def)
  have nl: "get_or [] (preferences ?lux) \<noteq> []" and nb: "get_or [] (preferences ?biz) \<noteq> []"
    by (simp_all add: get_or_def)
  from preference_bias_ranking [OF nb, of ?hs]
  have "list_all (\<lambda>h. preference_score [''business''] h = 0) ?hs
        \<longrightarrow> filter_mock_hotels ?hs ?biz = take 12 ?hs"
    unfolding Let_def pb l example_no_budget by blast
  then have b: "filter_mock_hotels ?hs ?biz = ?hs"
    by (simp add: example_preference_scores)
  from preference_bias_ranking [OF nl, of ?hs]
  obtain ranked where r: "filter_mock_hotels ?hs ?lux = take 12 ranked"
    "mset ranked = mset (if list_ex (\<lambda>h. 0 < preference_score [''luxury''] h) ?hs
                         then filter (\<lambda>h. 0 < preference_score [''luxury''] h) ?hs else ?hs)"
    unfolding Let_def pl l example_no_budget by blast
  from r(2) have "mset ranked = mset [example_hotel_2]"
    by (simp add: example_preference_scores)
  then have "ranked = [example_hotel_2]" by simp
  with r(1) have a: "filter_mock_hotels ?hs ?lux = [example_hotel_2]" by simp
  have s: "preference_score (map lower [''Luxury'']) example_hotel = 0"
    "preference_score (map lower [''Luxury'']) example_hotel_2 = 10"
    "preference_score (map lower [''Business'']) example_hotel = 0"
    "preference_score (map lower [''Business'']) example_hotel_2 = 0"
    unfolding l by (rule example_preference_scores)+
  from a b s show ?thesis by (simp only: simp_thms)
qed


text \<open>
  Two candidates survive the budget filter, fewer than twelve; the one that scored zero is
  not in the result, because the other scored ten.
\<close>

theorem preference_bias_drops_zero_scores_counterexample:
  "budget_filter (example_parameters\<lparr>preferences := Some [''Luxury'']\<rparr>)
     [example_hotel, example_hotel_2] = [example_hotel, example_hotel_2]
   \<and> filter_mock_hotels [example_hotel, example_hotel_2]
        (example_parameters\<lparr>preferences := Some [''Luxury'']\<rparr>) = [example_hotel_2]
   \<and> example_hotel \<notin> set [example_hotel_2]"
proof -
  have l: "lower ''Luxury'' = ''luxury''" by (simp add: text_simps)
  have a: "filter_mock_hotels [example_hotel, example_hotel_2]
        (example_parameters\<lparr>preferences := Some [''Luxury'']\<rparr>) = [example_hotel_2]"
    by (simp add: filter_mock_hotels_def preference_bias_sorted example_no_budget get_or_def l
        example_preference_scores sort_reverse_def Let_def)
  have "hotel_id example_hotel \<noteq> hotel_id example_hotel_2" by (simp add: example_ids)
  then have "example_hotel \<noteq> example_hotel_2" by metis
  with a show ?thesis by (simp add: example_no_budget)
qed

end
